theory Spec2Isabelle
  imports Main "HOL-Library.Sublist"
begin

section \<open>Range batcher (\<^verbatim>\<open>loopThroughBlocks\<close>, utils/seeder)\<close>

text \<open>
  Block numbers are JavaScript \<^verbatim>\<open>bigint\<close>s, modelled as \<^typ>\<open>int\<close>.  The
  callback is awaited inside a \<^verbatim>\<open>try\<close> whose \<^verbatim>\<open>catch\<close> only logs, and both
  paths continue with \<^verbatim>\<open>currentBlock = nextBlock + 1n\<close>; the callback is
  therefore a transformer of the caller's state, and its outcome never
  influences the loop variables.  The progress counters
  (\<^verbatim>\<open>processedBlocks\<close>, \<^verbatim>\<open>batchCount\<close>, timings) only feed log lines and are
  left out.  The \<^verbatim>\<open>while\<close> loop need not end for a negative batch size, so it
  is a partial function: \<open>None\<close> is a loop that never returns.
\<close>

partial_function (option) batch_loop ::
  "(int \<Rightarrow> int \<Rightarrow> 's \<Rightarrow> 's) \<Rightarrow> int \<Rightarrow> int \<Rightarrow> int \<Rightarrow> int \<Rightarrow> 's \<Rightarrow> 's option" where
  "batch_loop cb lastBlock batchSize currentBlock nextBlock s =
     (if nextBlock < lastBlock then
        (let nb = currentBlock + batchSize;
             nb' = (if nb \<ge> lastBlock then lastBlock else nb)
         in batch_loop cb lastBlock batchSize (nb' + 1) nb' (cb currentBlock nb' s))
      else Some s)"

declare batch_loop.simps [code]

text \<open>
  \<^verbatim>\<open>defaultBatchSize ? defaultBatchSize : 1000n\<close>: an absent argument and
  \<^verbatim>\<open>0n\<close> are both falsy.  The function returns \<^verbatim>\<open>lastBlock\<close>.
\<close>

definition loopThroughBlocks ::
  "int \<Rightarrow> int \<Rightarrow> (int \<Rightarrow> int \<Rightarrow> 's \<Rightarrow> 's) \<Rightarrow> int option \<Rightarrow> 's \<Rightarrow> (int \<times> 's) option" where
  "loopThroughBlocks firstBlock lastBlock cb defaultBatchSize s =
     (let batchSize = (case defaultBatchSize of
                         None \<Rightarrow> 1000
                       | Some b \<Rightarrow> if b \<noteq> 0 then b else 1000)
      in map_option (\<lambda>s'. (lastBlock, s'))
           (batch_loop cb lastBlock batchSize firstBlock firstBlock s))"

text \<open>The sequence of callback invocations: a callback that appends its arguments.\<close>

definition record_range :: "int \<Rightarrow> int \<Rightarrow> (int \<times> int) list \<Rightarrow> (int \<times> int) list" where
  "record_range fromBlock toBlock rs = rs @ [(fromBlock, toBlock)]"

definition emitted_ranges :: "int \<Rightarrow> int \<Rightarrow> int option \<Rightarrow> (int \<times> int) list option" where
  "emitted_ranges firstBlock lastBlock defaultBatchSize =
     map_option snd (loopThroughBlocks firstBlock lastBlock record_range defaultBatchSize [])"

subsection \<open>What it means to tile an interval\<close>

fun blocks_of :: "int \<times> int \<Rightarrow> int list" where
  "blocks_of (fromBlock, toBlock) = [fromBlock..toBlock]"

fun range_within :: "int \<Rightarrow> int \<times> int \<Rightarrow> bool" where
  "range_within maxLen (fromBlock, toBlock) =
     (fromBlock \<le> toBlock \<and> toBlock - fromBlock + 1 \<le> maxLen)"

text \<open>
  \<open>contiguous a b rs\<close>: the first range starts at \<open>a\<close>, every range starts one
  block after its predecessor ends, and the last one ends at \<open>b\<close>.
\<close>

fun contiguous :: "int \<Rightarrow> int \<Rightarrow> (int \<times> int) list \<Rightarrow> bool" where
  "contiguous a b [] = (a = b + 1)"
| "contiguous a b ((f, t) # rs) = (f = a \<and> a \<le> t \<and> t \<le> b \<and> contiguous (t + 1) b rs)"

text \<open>
  \<open>exact_tiling maxLen a b rs\<close>: listing the blocks of each range, one range
  after the other, gives every block of \<open>[a, b]\<close> exactly once and in
  ascending order (so the ranges are contiguous, do not overlap and their
  union is the interval), and every range is non-empty with an inclusive
  length of at most \<open>maxLen\<close>.
\<close>

definition exact_tiling :: "int \<Rightarrow> int \<Rightarrow> int \<Rightarrow> (int \<times> int) list \<Rightarrow> bool" where
  "exact_tiling maxLen a b rs =
     (concat (map blocks_of rs) = [a..b] \<and> contiguous a b rs \<and> list_all (range_within maxLen) rs)"

section \<open>JavaScript strings and values\<close>

text \<open>
  Strings are byte lists.  \<^verbatim>\<open>String.prototype.startsWith\<close> and
  \<^verbatim>\<open>String.prototype.includes\<close> are case-sensitive prefix and substring
  tests.
\<close>

fun startsWith :: "string \<Rightarrow> string \<Rightarrow> bool" where
  "startsWith s [] = True"
| "startsWith [] (p # ps) = False"
| "startsWith (c # cs) (p # ps) = (c = p \<and> startsWith cs ps)"

fun includes_str :: "string \<Rightarrow> string \<Rightarrow> bool" where
  "includes_str [] p = (p = [])"
| "includes_str (c # cs) p = (startsWith (c # cs) p \<or> includes_str cs p)"

text \<open>\<^verbatim>\<open>toLowerCase\<close> on the ASCII letters (other bytes are left alone).\<close>

definition toLowerCase_char :: "char \<Rightarrow> char" where
  "toLowerCase_char c =
     (if 65 \<le> (of_char c :: int) \<and> (of_char c :: int) \<le> 90
      then char_of (of_char c + 32 :: int) else c)"

definition toLowerCase :: "string \<Rightarrow> string" where
  "toLowerCase s = map toLowerCase_char s"

text \<open>
  \<^verbatim>\<open>BigInt.prototype.toString()\<close> and the \<^verbatim>\<open>${...}\<close> interpolation of a
  \<^verbatim>\<open>bigint\<close>: the decimal digits, with a leading minus sign for a negative
  value.  \<open>nat_digits\<close> is only applied to non-negative numbers.
\<close>

definition digit_char :: "int \<Rightarrow> char" where
  "digit_char d = char_of (48 + d)"

function nat_digits :: "int \<Rightarrow> string" where
  "nat_digits n =
     (if n < 10 then [digit_char n] else nat_digits (n div 10) @ [digit_char (n mod 10)])"
  by pat_completeness auto
termination
  by (relation "measure nat") auto

declare nat_digits.simps [simp del]

definition bigint_toString :: "int \<Rightarrow> string" where
  "bigint_toString i = (if i < 0 then CHR ''-'' # nat_digits (- i) else nat_digits i)"

text \<open>
  The values that reach the store: decoded event arguments and query
  filters.  \<open>JNum\<close> is a \<^verbatim>\<open>number\<close> holding an integer (viem decodes the
  integer types of up to 48 bits, and \<^verbatim>\<open>logIndex\<close>, to such numbers);
  fractional numbers do not occur and are not modelled.  \<open>JBigInt\<close> is a
  \<^verbatim>\<open>bigint\<close>.  An object is the list of its own enumerable properties in
  insertion order.
\<close>

datatype jsval =
    JUndefined
  | JNull
  | JBool bool
  | JNum int
  | JBigInt int
  | JStr string
  | JArr "jsval list"
  | JObj "(string \<times> jsval) list"

text \<open>Thrown values.\<close>

datatype error = TypeError string | SqliteError string | Error string

text \<open>The first failure of a sequence of steps, or all their results.\<close>

fun first_error :: "(error + 'a) list \<Rightarrow> error + 'a list" where
  "first_error [] = Inr []"
| "first_error (Inl e # rs) = Inl e"
| "first_error (Inr x # rs) =
     (case first_error rs of Inl e \<Rightarrow> Inl e | Inr xs \<Rightarrow> Inr (x # xs))"

subsection \<open>\<^verbatim>\<open>JSON.stringify\<close>\<close>

text \<open>
  The built-in serializer, on the values above: a \<^verbatim>\<open>bigint\<close> anywhere in
  the value throws a \<^verbatim>\<open>TypeError\<close>; \<^verbatim>\<open>undefined\<close> becomes \<^verbatim>\<open>null\<close> inside
  an array and is dropped from an object; at the top level it yields
  \<^verbatim>\<open>undefined\<close> (\<open>None\<close>).
\<close>

definition hex_char :: "int \<Rightarrow> char" where
  "hex_char d = (if d < 10 then char_of (48 + d) else char_of (87 + d))"

definition json_escape_char :: "char \<Rightarrow> string" where
  "json_escape_char c =
     (if c = CHR 0x22 then [CHR 0x5C, CHR 0x22]
      else if c = CHR 0x5C then [CHR 0x5C, CHR 0x5C]
      else if c = CHR 0x08 then [CHR 0x5C, CHR ''b'']
      else if c = CHR 0x0C then [CHR 0x5C, CHR ''f'']
      else if c = CHR 0x0A then [CHR 0x5C, CHR ''n'']
      else if c = CHR 0x0D then [CHR 0x5C, CHR ''r'']
      else if c = CHR 0x09 then [CHR 0x5C, CHR ''t'']
      else if (of_char c :: int) < 32
        then [CHR 0x5C, CHR ''u'', CHR ''0'', CHR ''0'',
              hex_char (of_char c div 16), hex_char (of_char c mod 16)]
      else [c])"

definition json_quote :: "string \<Rightarrow> string" where
  "json_quote s = CHR 0x22 # concat (map json_escape_char s) @ [CHR 0x22]"

fun join_str :: "string \<Rightarrow> string list \<Rightarrow> string" where
  "join_str sep [] = []"
| "join_str sep [x] = x"
| "join_str sep (x # y # ys) = x @ sep @ join_str sep (y # ys)"

fun json_element :: "string option \<Rightarrow> string" where
  "json_element None = ''null''"
| "json_element (Some t) = t"

fun json_property :: "string \<times> (error + string option) \<Rightarrow> error + string option" where
  "json_property (k, Inl e) = Inl e"
| "json_property (k, Inr None) = Inr None"
| "json_property (k, Inr (Some t)) = Inr (Some (json_quote k @ '':'' @ t))"

primrec JSON_stringify :: "jsval \<Rightarrow> error + string option" where
  "JSON_stringify JUndefined = Inr None"
| "JSON_stringify JNull = Inr (Some ''null'')"
| "JSON_stringify (JBool b) = Inr (Some (if b then ''true'' else ''false''))"
| "JSON_stringify (JNum n) = Inr (Some (bigint_toString n))"
| "JSON_stringify (JBigInt n) = Inl (TypeError ''Do not know how to serialize a BigInt'')"
| "JSON_stringify (JStr s) = Inr (Some (json_quote s))"
| "JSON_stringify (JArr vs) =
     (case first_error (map JSON_stringify vs) of
        Inl e \<Rightarrow> Inl e
      | Inr parts \<Rightarrow> Inr (Some (''['' @ join_str '','' (map json_element parts) @ '']'')))"
| "JSON_stringify (JObj ps) =
     (case first_error (map json_property (map (map_prod id JSON_stringify) ps)) of
        Inl e \<Rightarrow> Inl e
      | Inr parts \<Rightarrow> Inr (Some (''{'' @ join_str '','' (List.map_filter id parts) @ ''}'')))"

subsection \<open>\<^verbatim>\<open>formatValueForSql\<close> (utils/dbClient)\<close>

text \<open>
  \<^verbatim>\<open>null\<close> and \<^verbatim>\<open>undefined\<close> become \<^verbatim>\<open>null\<close>; an array or an object is
  passed to \<^verbatim>\<open>JSON.stringify\<close>, whose exception propagates; a \<^verbatim>\<open>bigint\<close>
  becomes its decimal string; everything else is returned as it is.
\<close>

definition stringified :: "jsval \<Rightarrow> error + jsval" where
  "stringified v =
     (case JSON_stringify v of
        Inl e \<Rightarrow> Inl e
      | Inr None \<Rightarrow> Inr JUndefined
      | Inr (Some t) \<Rightarrow> Inr (JStr t))"

definition formatValueForSql :: "jsval \<Rightarrow> error + jsval" where
  "formatValueForSql v =
     (case v of
        JNull \<Rightarrow> Inr JNull
      | JUndefined \<Rightarrow> Inr JNull
      | JArr vs \<Rightarrow> stringified v
      | JObj ps \<Rightarrow> stringified v
      | JBigInt n \<Rightarrow> Inr (JStr (bigint_toString n))
      | _ \<Rightarrow> Inr v)"

section \<open>Schema synthesizer: column types (\<^verbatim>\<open>getSqlTypeFromEthType\<close>, utils/dbClient)\<close>

definition getSqlTypeFromEthType :: "string \<Rightarrow> string" where
  "getSqlTypeFromEthType ethType =
     (if startsWith ethType ''uint'' \<or> startsWith ethType ''int'' then
        (if includes_str ethType ''256'' \<or> includes_str ethType ''128'' then ''TEXT''
         else ''INTEGER'')
      else if ethType = ''address'' then ''TEXT''
      else if ethType = ''bool'' then ''BOOLEAN''
      else if startsWith ethType ''bytes'' then ''BLOB''
      else if ethType = ''string'' then ''TEXT''
      else if includes_str ethType ''[]'' then ''TEXT''
      else ''TEXT'')"

section \<open>Storage engine\<close>

text \<open>
  The program keeps its rows in SQLite through \<^verbatim>\<open>bun:sqlite\<close>, a library
  outside the repository.  It is modelled as a relational store restricted to
  the statements the program issues: the existence test on
  \<^verbatim>\<open>sqlite_master\<close>, \<^verbatim>\<open>PRAGMA table_info\<close>, \<^verbatim>\<open>CREATE TABLE IF NOT EXISTS\<close>
  with its indexes, \<^verbatim>\<open>INSERT\<close> of one row, and \<^verbatim>\<open>SELECT\<close> with a
  conjunction of \<^verbatim>\<open>column = ?\<close> conditions, \<^verbatim>\<open>ORDER BY\<close>, \<^verbatim>\<open>LIMIT\<close> and
  \<^verbatim>\<open>OFFSET\<close>.  Statements are kept structured (table, columns, values)
  instead of as SQL text, so a name spliced into a statement is either a
  column of the table or makes the statement fail; column and table names are
  not checked for being valid identifiers.

  Column and filter names are looked up as identifiers, without regard to
  the case of ASCII letters; a filter key or an \<^verbatim>\<open>ORDER BY\<close> text that is an
  expression and not a column name is outside the model, which rejects it.

  Stored values are \<^verbatim>\<open>NULL\<close>, 64-bit integers, text, and \<open>SReal\<close>, the
  floating-point class, which in this program only arises from an integer
  literal too large for 64 bits; its payload is the integer that such a
  double denotes.
\<close>

datatype sqlval = SNull | SInt int | SReal int | SText string

text \<open>
  A column has a name, a declared type, a \<^verbatim>\<open>NOT NULL\<close> flag and a default:
  none, the auto-incremented key, or \<^verbatim>\<open>CURRENT_TIMESTAMP\<close>.  A table has its
  columns, its unique indexes (each a list of column names), its rows (each
  row lists its columns with their values, in column order) and the next
  auto-increment key.  The database maps table names to tables and knows the
  current time as text.
\<close>

datatype col_default = NoDefault | AutoIncrement | CurrentTimestamp

record column =
  col_name :: string
  col_type :: string
  col_notnull :: bool
  col_default :: col_default

type_synonym row = "(string \<times> sqlval) list"

record table =
  tbl_columns :: "column list"
  tbl_unique :: "string list list"
  tbl_rows :: "row list"
  tbl_next_id :: int

record database =
  db_tables :: "string \<rightharpoonup> table"
  db_now :: string

text \<open>
  Column affinity, from the declared type, by SQLite's rules (the declared
  types of this program are in upper case).
\<close>

datatype affinity = AText | ANumeric | AInteger | AReal | ABlob

definition affinity_of :: "string \<Rightarrow> affinity" where
  "affinity_of ty =
     (if includes_str ty ''INT'' then AInteger
      else if includes_str ty ''CHAR'' \<or> includes_str ty ''CLOB'' \<or> includes_str ty ''TEXT'' then AText
      else if includes_str ty ''BLOB'' \<or> ty = [] then ABlob
      else if includes_str ty ''REAL'' \<or> includes_str ty ''FLOA'' \<or> includes_str ty ''DOUB'' then AReal
      else ANumeric)"

text \<open>
  The double nearest to an integer (ties to the even mantissa): integers of at
  most 53 bits are doubles themselves, a longer one keeps its 53 leading bits,
  rounded.
\<close>

function bit_length :: "int \<Rightarrow> int" where
  "bit_length n = (if n \<le> 0 then 0 else 1 + bit_length (n div 2))"
  by pat_completeness auto
termination
  by (relation "measure nat") auto

declare bit_length.simps [simp del]

definition nearest_double :: "int \<Rightarrow> int" where
  "nearest_double n =
     (let e = bit_length \<bar>n\<bar> - 53 in
      if e \<le> 0 then n
      else
        (let p = 2 ^ nat e;
             q = \<bar>n\<bar> div p;
             r = \<bar>n\<bar> mod p;
             up = (r > p div 2 \<or> (r = p div 2 \<and> odd q))
         in sgn n * (if up then q + 1 else q) * p))"

text \<open>
  A text value stored in a column of numeric affinity becomes an integer when
  it is an integer literal that fits 64 bits, and the nearest double when it
  is an integer literal that does not fit.  An integer stored in a column of
  text affinity becomes its decimal text.  Other values are stored as they
  are.
\<close>

definition is_digit :: "char \<Rightarrow> bool" where
  "is_digit c = (48 \<le> (of_char c :: int) \<and> (of_char c :: int) \<le> 57)"

definition digits_value :: "string \<Rightarrow> int" where
  "digits_value s = foldl (\<lambda>acc c. 10 * acc + (of_char c - 48)) 0 s"

fun int_literal :: "string \<Rightarrow> int option" where
  "int_literal [] = None"
| "int_literal (c # cs) =
     (if c = CHR ''-'' then (if cs \<noteq> [] \<and> list_all is_digit cs then Some (- digits_value cs) else None)
      else if c = CHR ''+'' then (if cs \<noteq> [] \<and> list_all is_digit cs then Some (digits_value cs) else None)
      else if list_all is_digit (c # cs) then Some (digits_value (c # cs)) else None)"

definition fits_int64 :: "int \<Rightarrow> bool" where
  "fits_int64 n = (- 9223372036854775808 \<le> n \<and> n \<le> 9223372036854775807)"

text \<open>A 64-bit two's complement integer from any integer, modulo \<open>2^64\<close>.\<close>

definition wrap_int64 :: "int \<Rightarrow> int" where
  "wrap_int64 n = (n + 9223372036854775808) mod 18446744073709551616 - 9223372036854775808"

definition apply_affinity :: "string \<Rightarrow> sqlval \<Rightarrow> sqlval" where
  "apply_affinity ty v =
     (case affinity_of ty of
        AText \<Rightarrow> (case v of SInt n \<Rightarrow> SText (bigint_toString n)
                         | SReal n \<Rightarrow> SText (bigint_toString n)
                         | _ \<Rightarrow> v)
      | ABlob \<Rightarrow> v
      | _ \<Rightarrow> (case v of
                 SText s \<Rightarrow>
                   (case int_literal s of
                      None \<Rightarrow> v
                    | Some n \<Rightarrow> if fits_int64 n then SInt n else SReal (nearest_double n))
               | _ \<Rightarrow> v))"

text \<open>The comparison \<^verbatim>\<open>=\<close>: never true on \<^verbatim>\<open>NULL\<close>.\<close>

fun sql_equal :: "sqlval \<Rightarrow> sqlval \<Rightarrow> bool" where
  "sql_equal SNull _ = False"
| "sql_equal _ SNull = False"
| "sql_equal (SInt a) (SInt b) = (a = b)"
| "sql_equal (SInt a) (SReal b) = (a = b)"
| "sql_equal (SReal a) (SInt b) = (a = b)"
| "sql_equal (SReal a) (SReal b) = (a = b)"
| "sql_equal (SText a) (SText b) = (a = b)"
| "sql_equal _ _ = False"

text \<open>
  Binding a JavaScript value to a \<^verbatim>\<open>?\<close> placeholder.  A \<^verbatim>\<open>bigint\<close> is bound
  as a 64-bit integer, modulo \<open>2^64\<close>; arrays and objects cannot be bound.
\<close>

definition sql_bind :: "jsval \<Rightarrow> error + sqlval" where
  "sql_bind v =
     (case v of
        JUndefined \<Rightarrow> Inr SNull
      | JNull \<Rightarrow> Inr SNull
      | JBool b \<Rightarrow> Inr (SInt (if b then 1 else 0))
      | JNum n \<Rightarrow> Inr (SInt n)
      | JBigInt n \<Rightarrow> Inr (SInt (wrap_int64 n))
      | JStr s \<Rightarrow> Inr (SText s)
      | JArr _ \<Rightarrow> Inl (TypeError ''Binding expected string, TypedArray, boolean, number, bigint or null'')
      | JObj _ \<Rightarrow> Inl (TypeError ''Binding expected string, TypedArray, boolean, number, bigint or null''))"

text \<open>
  \<^verbatim>\<open>SELECT ... WHERE c1 = ? AND c2 = ? ...\<close>: the statement fails when a
  name is not a column of the table; the affinity of the column is applied to
  the bound value before the comparison.
\<close>

definition same_ident :: "string \<Rightarrow> string \<Rightarrow> bool" where
  "same_ident a b = (toLowerCase a = toLowerCase b)"

definition column_named :: "table \<Rightarrow> string \<Rightarrow> column option" where
  "column_named t c = find (\<lambda>col. same_ident (col_name col) c) (tbl_columns t)"

definition row_value :: "row \<Rightarrow> string \<Rightarrow> sqlval" where
  "row_value r c = (case map_of r c of None \<Rightarrow> SNull | Some v \<Rightarrow> v)"

definition row_matches :: "table \<Rightarrow> row \<Rightarrow> string \<times> sqlval \<Rightarrow> bool" where
  "row_matches t r cond =
     (case column_named t (fst cond) of
        None \<Rightarrow> False
      | Some col \<Rightarrow>
          sql_equal (row_value r (col_name col)) (apply_affinity (col_type col) (snd cond)))"

definition select_where :: "table \<Rightarrow> (string \<times> sqlval) list \<Rightarrow> error + row list" where
  "select_where t conds =
     (case find (\<lambda>cond. column_named t (fst cond) = None) conds of
        Some cond \<Rightarrow> Inl (SqliteError (''no such column: '' @ fst cond))
      | None \<Rightarrow> Inr (filter (\<lambda>r. list_all (row_matches t r) conds) (tbl_rows t)))"

text \<open>
  \<^verbatim>\<open>INSERT INTO t (cols) VALUES (?, ...)\<close>: a column that is not listed gets
  its default; the row is rejected when a \<^verbatim>\<open>NOT NULL\<close> column would hold
  \<^verbatim>\<open>NULL\<close> or when a unique index already has a row with the same key.
\<close>

definition default_value :: "database \<Rightarrow> table \<Rightarrow> column \<Rightarrow> sqlval" where
  "default_value d t col =
     (case col_default col of
        NoDefault \<Rightarrow> SNull
      | AutoIncrement \<Rightarrow> SInt (tbl_next_id t)
      | CurrentTimestamp \<Rightarrow> SText (db_now d))"

definition new_row :: "database \<Rightarrow> table \<Rightarrow> (string \<times> sqlval) list \<Rightarrow> row" where
  "new_row d t given =
     map (\<lambda>col. (col_name col,
                  (case find (\<lambda>g. same_ident (fst g) (col_name col)) given of
                     None \<Rightarrow> default_value d t col
                   | Some g \<Rightarrow> apply_affinity (col_type col) (snd g))))
         (tbl_columns t)"

definition violates_notnull :: "table \<Rightarrow> row \<Rightarrow> bool" where
  "violates_notnull t r =
     list_ex (\<lambda>col. col_notnull col \<and> row_value r (col_name col) = SNull) (tbl_columns t)"

definition same_key :: "string list \<Rightarrow> row \<Rightarrow> row \<Rightarrow> bool" where
  "same_key key r r' = list_all (\<lambda>c. sql_equal (row_value r c) (row_value r' c)) key"

definition violates_unique :: "table \<Rightarrow> row \<Rightarrow> bool" where
  "violates_unique t r =
     list_ex (\<lambda>key. list_ex (same_key key r) (tbl_rows t)) (tbl_unique t)"

definition insert_into :: "database \<Rightarrow> string \<Rightarrow> string list \<Rightarrow> sqlval list \<Rightarrow> error + database" where
  "insert_into d tableName cols vals =
     (case db_tables d tableName of
        None \<Rightarrow> Inl (SqliteError (''no such table: '' @ tableName))
      | Some t \<Rightarrow>
          (case find (\<lambda>c. column_named t c = None) cols of
             Some c \<Rightarrow> Inl (SqliteError (''table '' @ tableName @ '' has no column named '' @ c))
           | None \<Rightarrow>
               (let r = new_row d t (zip cols vals) in
                if violates_notnull t r then Inl (SqliteError ''NOT NULL constraint failed'')
                else if violates_unique t r then Inl (SqliteError ''UNIQUE constraint failed'')
                else Inr (d\<lparr>db_tables := (db_tables d)(tableName \<mapsto>
                            t\<lparr>tbl_rows := tbl_rows t @ [r], tbl_next_id := tbl_next_id t + 1\<rparr>)\<rparr>))))"

section \<open>Event store (utils/dbClient)\<close>

text \<open>
  An ABI item has its \<^verbatim>\<open>type\<close> (\<^verbatim>\<open>event\<close> for the ones that get a table),
  its name and the type tags of its inputs, in order.  A log, as the chain
  client delivers it: \<^verbatim>\<open>transactionHash\<close>, \<^verbatim>\<open>blockNumber\<close> and \<^verbatim>\<open>logIndex\<close>
  may be \<^verbatim>\<open>null\<close>; \<^verbatim>\<open>args\<close>, when present, is given by its values in order
  (\<^verbatim>\<open>Object.values(log.args)\<close>).
\<close>

record abi_item =
  abi_type :: string
  abi_name :: string
  abi_inputs :: "string list"

record log_record =
  log_address :: string
  log_transactionHash :: "string option"
  log_blockNumber :: "int option"
  log_logIndex :: "int option"
  log_args :: "jsval list option"

text \<open>
  The logger's counters under the key \<^verbatim>\<open>current_batch\<close>
  (\<^verbatim>\<open>logger.trackStat\<close>); log lines themselves are not modelled.  The store and
  the counters together are the state the insert works on.
\<close>

record batch_stats =
  stat_duplicates :: nat
  stat_processed :: nat
  stat_errors :: nat

record world =
  w_db :: database
  w_stats :: batch_stats

datatype stat_type = Duplicate | Processed | Failure

fun trackStat :: "stat_type \<Rightarrow> batch_stats \<Rightarrow> batch_stats" where
  "trackStat Duplicate st = st\<lparr>stat_duplicates := stat_duplicates st + 1\<rparr>"
| "trackStat Processed st = st\<lparr>stat_processed := stat_processed st + 1\<rparr>"
| "trackStat Failure st = st\<lparr>stat_errors := stat_errors st + 1\<rparr>"

definition tableName_of :: "string \<Rightarrow> string" where
  "tableName_of eventName = ''event_'' @ toLowerCase eventName"


subsection \<open>\<^verbatim>\<open>generateDatabaseSchemas\<close>\<close>

text \<open>
  One table per event: five fixed columns and the timestamp, then one column
  per input, and the unique index on \<^verbatim>\<open>(transaction_hash, log_index)\<close>.  The
  two non-unique indexes do not change what is stored and are left out.
  Items that are not events are skipped.

  The text of a parameter column is \<^verbatim>\<open>param_<i>_<type> <sqlType>\<close>.  The
  engine takes the leading identifier as the column name and what follows it
  as the declared type, so \<^verbatim>\<open>param_0_uint8[] INTEGER\<close> declares the column
  \<^verbatim>\<open>param_0_uint8\<close> of type \<^verbatim>\<open>[] INTEGER\<close>.  A type tag that makes the
  statement unparsable (a tuple) is outside the model.
\<close>

definition is_ident_char :: "char \<Rightarrow> bool" where
  "is_ident_char c =
     (let n = (of_char c :: int)
      in (48 \<le> n \<and> n \<le> 57) \<or> (65 \<le> n \<and> n \<le> 90) \<or> (97 \<le> n \<and> n \<le> 122)
         \<or> n = 95 \<or> n = 36 \<or> 128 \<le> n)"

definition declared_column :: "string \<Rightarrow> string \<Rightarrow> column" where
  "declared_column columnName sqlType =
     (let rest = dropWhile is_ident_char columnName
      in \<lparr>col_name = takeWhile is_ident_char columnName,
          col_type = (if rest = [] then sqlType else rest @ '' '' @ sqlType),
          col_notnull = False, col_default = NoDefault\<rparr>)"

definition base_columns :: "column list" where
  "base_columns =
     [\<lparr>col_name = ''id'', col_type = ''INTEGER'', col_notnull = False, col_default = AutoIncrement\<rparr>,
      \<lparr>col_name = ''contract_address'', col_type = ''TEXT'', col_notnull = True, col_default = NoDefault\<rparr>,
      \<lparr>col_name = ''transaction_hash'', col_type = ''TEXT'', col_notnull = True, col_default = NoDefault\<rparr>,
      \<lparr>col_name = ''block_number'', col_type = ''INTEGER'', col_notnull = True, col_default = NoDefault\<rparr>,
      \<lparr>col_name = ''log_index'', col_type = ''INTEGER'', col_notnull = True, col_default = NoDefault\<rparr>,
      \<lparr>col_name = ''timestamp'', col_type = ''DATETIME'', col_notnull = False, col_default = CurrentTimestamp\<rparr>]"

fun param_columns :: "int \<Rightarrow> string list \<Rightarrow> column list" where
  "param_columns i [] = []"
| "param_columns i (ty # tys) =
     declared_column (''param_'' @ bigint_toString i @ ''_'' @ ty) (getSqlTypeFromEthType ty)
       # param_columns (i + 1) tys"

definition event_table :: "abi_item \<Rightarrow> table" where
  "event_table abi =
     \<lparr>tbl_columns = base_columns @ param_columns 0 (abi_inputs abi),
      tbl_unique = [[''transaction_hash'', ''log_index'']],
      tbl_rows = [],
      tbl_next_id = 1\<rparr>"

definition create_table_if_not_exists :: "string \<Rightarrow> table \<Rightarrow> database \<Rightarrow> database" where
  "create_table_if_not_exists tableName t d =
     (case db_tables d tableName of
        Some _ \<Rightarrow> d
      | None \<Rightarrow> d\<lparr>db_tables := (db_tables d)(tableName \<mapsto> t)\<rparr>)"

fun generateDatabaseSchemas :: "abi_item list \<Rightarrow> database \<Rightarrow> database" where
  "generateDatabaseSchemas [] d = d"
| "generateDatabaseSchemas (abi # abis) d =
     (if abi_type abi \<noteq> ''event'' then generateDatabaseSchemas abis d
      else generateDatabaseSchemas abis
             (create_table_if_not_exists (tableName_of (abi_name abi)) (event_table abi) d))"


subsection \<open>\<^verbatim>\<open>saveLogToDatabase\<close>\<close>

text \<open>
  \<^verbatim>\<open>parseInt(s, 10)\<close>: leading white space, an optional sign, then the
  longest run of digits; \<open>None\<close> is \<^verbatim>\<open>NaN\<close>.  Indexing an array with
  \<^verbatim>\<open>NaN\<close> or out of range gives \<^verbatim>\<open>undefined\<close>.
\<close>

definition is_space :: "char \<Rightarrow> bool" where
  "is_space c = (c = CHR '' '' \<or> c = CHR 0x09 \<or> c = CHR 0x0A \<or> c = CHR 0x0B \<or> c = CHR 0x0C \<or> c = CHR 0x0D)"

definition parseInt10 :: "string \<Rightarrow> int option" where
  "parseInt10 s =
     (let t = dropWhile is_space s;
          negative = startsWith t ''-'';
          u = (if startsWith t ''-'' \<or> startsWith t ''+'' then drop 1 t else t);
          ds = takeWhile is_digit u
      in if ds = [] then None
         else Some (if negative then - digits_value ds else digits_value ds))"

definition js_index :: "jsval list \<Rightarrow> int option \<Rightarrow> jsval" where
  "js_index xs i =
     (case i of
        None \<Rightarrow> JUndefined
      | Some n \<Rightarrow> if 0 \<le> n \<and> n < int (length xs) then xs ! nat n else JUndefined)"

text \<open>\<^verbatim>\<open>log.logIndex || 0\<close> and \<^verbatim>\<open>log.transactionHash\<close> as bound values.\<close>

definition logIndex_or_0 :: "log_record \<Rightarrow> int" where
  "logIndex_or_0 log = (case log_logIndex log of None \<Rightarrow> 0 | Some n \<Rightarrow> n)"

definition js_of_hash :: "log_record \<Rightarrow> jsval" where
  "js_of_hash log = (case log_transactionHash log of None \<Rightarrow> JNull | Some h \<Rightarrow> JStr h)"

text \<open>
  The value pushed for one insertable column.  For a \<^verbatim>\<open>param_\<close> column the
  argument index is \<^verbatim>\<open>parseInt(column.substring(6).split('_')[0], 10)\<close>.
\<close>

definition column_value :: "log_record \<Rightarrow> jsval list \<Rightarrow> string \<Rightarrow> error + jsval" where
  "column_value log logArgsArray column =
     (if column = ''contract_address'' then Inr (JStr (log_address log))
      else if column = ''transaction_hash'' then Inr (js_of_hash log)
      else if column = ''block_number'' then
        Inr (case log_blockNumber log of None \<Rightarrow> JNull | Some n \<Rightarrow> JBigInt n)
      else if column = ''log_index'' then Inr (JNum (logIndex_or_0 log))
      else if startsWith column ''param_'' then
        (let parts0 = takeWhile (\<lambda>c. c \<noteq> CHR ''_'') (drop 6 column);
             index = parseInt10 parts0;
             arg = js_index logArgsArray index
         in if arg \<noteq> JUndefined then formatValueForSql arg else Inr JNull)
      else Inr JNull)"

text \<open>
  The columns of the \<^verbatim>\<open>INSERT\<close> statement (all but \<^verbatim>\<open>id\<close> and
  \<^verbatim>\<open>timestamp\<close>), the \<^verbatim>\<open>values\<close> array built for them, and what
  \<^verbatim>\<open>stmt.run(...values)\<close> binds to the placeholders.
\<close>

definition logArgsArray_of :: "log_record \<Rightarrow> jsval list" where
  "logArgsArray_of log = (case log_args log of None \<Rightarrow> [] | Some vs \<Rightarrow> vs)"

definition insertableColumns_of :: "table \<Rightarrow> string list" where
  "insertableColumns_of t =
     filter (\<lambda>col. col \<noteq> ''id'' \<and> col \<noteq> ''timestamp'') (map col_name (tbl_columns t))"

definition insert_values :: "log_record \<Rightarrow> string list \<Rightarrow> error + jsval list" where
  "insert_values log insertableColumns =
     first_error (map (column_value log (logArgsArray_of log)) insertableColumns)"

definition bound_values :: "log_record \<Rightarrow> string list \<Rightarrow> error + sqlval list" where
  "bound_values log insertableColumns =
     (case insert_values log insertableColumns of
        Inl e \<Rightarrow> Inl e
      | Inr vals \<Rightarrow> first_error (map sql_bind vals))"

text \<open>
  The body of the \<^verbatim>\<open>try\<close> block: nothing happens when the table does not
  exist; a row with the same \<^verbatim>\<open>transaction_hash\<close> and \<^verbatim>\<open>log_index\<close> counts a
  duplicate and returns; otherwise one row is inserted with every column but
  \<^verbatim>\<open>id\<close> and \<^verbatim>\<open>timestamp\<close>.  The \<^verbatim>\<open>catch\<close> block counts an error and
  returns normally; the only write is the last statement of the body, so a
  failure leaves the store as it was.
\<close>

definition saveLogToDatabase_try :: "log_record \<Rightarrow> string \<Rightarrow> world \<Rightarrow> error + world" where
  "saveLogToDatabase_try log eventName w =
     (let tableName = tableName_of eventName
      in case db_tables (w_db w) tableName of
           None \<Rightarrow> Inr w
         | Some t \<Rightarrow>
            (case first_error [sql_bind (js_of_hash log), sql_bind (JNum (logIndex_or_0 log))] of
               Inl e \<Rightarrow> Inl e
             | Inr key \<Rightarrow>
                (case select_where t (zip [''transaction_hash'', ''log_index''] key) of
                   Inl e \<Rightarrow> Inl e
                 | Inr existingLog \<Rightarrow>
                    if existingLog \<noteq> [] then Inr (w\<lparr>w_stats := trackStat Duplicate (w_stats w)\<rparr>)
                    else
                      (let insertableColumns = insertableColumns_of t
                       in case bound_values log insertableColumns of
                            Inl e \<Rightarrow> Inl e
                          | Inr bound \<Rightarrow>
                             (case insert_into (w_db w) tableName insertableColumns bound of
                                Inl e \<Rightarrow> Inl e
                              | Inr d' \<Rightarrow>
                                 Inr (w\<lparr>w_db := d', w_stats := trackStat Processed (w_stats w)\<rparr>))))))"

definition saveLogToDatabase :: "log_record \<Rightarrow> string \<Rightarrow> world \<Rightarrow> world" where
  "saveLogToDatabase log eventName w =
     (case saveLogToDatabase_try log eventName w of
        Inl e \<Rightarrow> w\<lparr>w_stats := trackStat Failure (w_stats w)\<rparr>
      | Inr w' \<Rightarrow> w')"


subsection \<open>\<^verbatim>\<open>getLogsFromDatabase\<close>\<close>

datatype order_direction = ASC | DESC

record query_options =
  opt_filters :: "(string \<times> jsval) list option"
  opt_limit :: "int option"
  opt_offset :: "int option"
  opt_orderBy :: "string option"
  opt_orderDirection :: "order_direction option"

text \<open>
  \<^verbatim>\<open>ORDER BY\<close>: \<^verbatim>\<open>NULL\<close> first, then numbers by value, then text by its
  bytes.  Rows with equal keys keep their insertion order here; SQLite leaves
  their order open.  A negative \<^verbatim>\<open>LIMIT\<close> means no limit.
\<close>

fun bytes_le :: "string \<Rightarrow> string \<Rightarrow> bool" where
  "bytes_le [] _ = True"
| "bytes_le (a # as) [] = False"
| "bytes_le (a # as) (b # bs) =
     ((of_char a :: int) < of_char b \<or> (a = b \<and> bytes_le as bs))"

fun sql_le :: "sqlval \<Rightarrow> sqlval \<Rightarrow> bool" where
  "sql_le SNull _ = True"
| "sql_le _ SNull = False"
| "sql_le (SText a) (SText b) = bytes_le a b"
| "sql_le (SText a) _ = False"
| "sql_le _ (SText b) = True"
| "sql_le (SInt a) (SInt b) = (a \<le> b)"
| "sql_le (SInt a) (SReal b) = (a \<le> b)"
| "sql_le (SReal a) (SInt b) = (a \<le> b)"
| "sql_le (SReal a) (SReal b) = (a \<le> b)"

fun insert_row :: "(row \<Rightarrow> row \<Rightarrow> bool) \<Rightarrow> row \<Rightarrow> row list \<Rightarrow> row list" where
  "insert_row le r [] = [r]"
| "insert_row le r (x # xs) = (if le r x then r # x # xs else x # insert_row le r xs)"

definition order_rows :: "string \<Rightarrow> order_direction \<Rightarrow> row list \<Rightarrow> row list" where
  "order_rows c dir rs =
     foldr (insert_row (\<lambda>r r'. case dir of
                                 ASC \<Rightarrow> sql_le (row_value r c) (row_value r' c)
                               | DESC \<Rightarrow> sql_le (row_value r' c) (row_value r c))) rs []"

definition limit_offset :: "int \<Rightarrow> int \<Rightarrow> 'a list \<Rightarrow> 'a list" where
  "limit_offset lim off rs =
     (let rest = drop (nat off) rs in if lim < 0 then rest else take (nat lim) rest)"

definition select_all ::
  "database \<Rightarrow> string \<Rightarrow> (string \<times> sqlval) list \<Rightarrow> string \<Rightarrow> order_direction \<Rightarrow> int \<Rightarrow> int
     \<Rightarrow> error + row list" where
  "select_all d tableName conds orderBy dir lim off =
     (case db_tables d tableName of
        None \<Rightarrow> Inl (SqliteError (''no such table: '' @ tableName))
      | Some t \<Rightarrow>
          (case select_where t conds of
             Inl e \<Rightarrow> Inl e
           | Inr rs \<Rightarrow>
               (case column_named t orderBy of
                  None \<Rightarrow> Inl (SqliteError (''no such column: '' @ orderBy))
                | Some col \<Rightarrow> Inr (limit_offset lim off (order_rows (col_name col) dir rs)))))"

text \<open>
  What the driver hands back for a stored value (an integer comes back as a
  \<^verbatim>\<open>number\<close>, the nearest double), and the re-parsing of text
  that starts with \<^verbatim>\<open>[\<close> or \<^verbatim>\<open>{\<close>.  \<^verbatim>\<open>JSON.parse\<close> is a parameter:
  \<open>None\<close> is a \<^verbatim>\<open>SyntaxError\<close>, which the inner \<^verbatim>\<open>catch\<close> turns into the
  raw text.
\<close>

fun js_of_sql :: "sqlval \<Rightarrow> jsval" where
  "js_of_sql SNull = JNull"
| "js_of_sql (SInt n) = JNum (nearest_double n)"
| "js_of_sql (SReal n) = JNum n"
| "js_of_sql (SText s) = JStr s"

definition parse_field :: "(string \<Rightarrow> jsval option) \<Rightarrow> jsval \<Rightarrow> jsval" where
  "parse_field JSON_parse v =
     (case v of
        JStr s \<Rightarrow>
          if startsWith s ''['' \<or> startsWith s ''{'' then
            (case JSON_parse s of Some p \<Rightarrow> p | None \<Rightarrow> v)
          else v
      | _ \<Rightarrow> v)"

definition parse_row :: "(string \<Rightarrow> jsval option) \<Rightarrow> row \<Rightarrow> (string \<times> jsval) list" where
  "parse_row JSON_parse r = map (\<lambda>(k, v). (k, parse_field JSON_parse (js_of_sql v))) r"

text \<open>
  The body of the \<^verbatim>\<open>try\<close> block, with the defaults of the options, and
  the function with its \<^verbatim>\<open>catch\<close>, which returns the empty array.  The
  result type keeps an \<open>Inl\<close> summand for an exception that would leave the
  function.
\<close>

definition filter_value :: "string \<times> jsval \<Rightarrow> error + string \<times> sqlval" where
  "filter_value kv =
     (case formatValueForSql (snd kv) of
        Inl e \<Rightarrow> Inl e
      | Inr v \<Rightarrow> (case sql_bind v of Inl e \<Rightarrow> Inl e | Inr b \<Rightarrow> Inr (fst kv, b)))"

definition filters_of :: "query_options \<Rightarrow> (string \<times> jsval) list" where
  "filters_of options = (case opt_filters options of None \<Rightarrow> [] | Some f \<Rightarrow> f)"

definition limit_of :: "query_options \<Rightarrow> int" where
  "limit_of options = (case opt_limit options of None \<Rightarrow> 100 | Some n \<Rightarrow> n)"

definition offset_of :: "query_options \<Rightarrow> int" where
  "offset_of options = (case opt_offset options of None \<Rightarrow> 0 | Some n \<Rightarrow> n)"

definition orderBy_of :: "query_options \<Rightarrow> string" where
  "orderBy_of options = (case opt_orderBy options of None \<Rightarrow> ''timestamp'' | Some c \<Rightarrow> c)"

definition orderDirection_of :: "query_options \<Rightarrow> order_direction" where
  "orderDirection_of options =
     (case opt_orderDirection options of None \<Rightarrow> DESC | Some dir \<Rightarrow> dir)"

definition getLogsFromDatabase_try ::
  "(string \<Rightarrow> jsval option) \<Rightarrow> string \<Rightarrow> query_options \<Rightarrow> database
     \<Rightarrow> error + (string \<times> jsval) list list" where
  "getLogsFromDatabase_try JSON_parse eventName options d =
     (let tableName = tableName_of eventName
      in if db_tables d tableName = None then Inr []
         else
           (case first_error (map filter_value (filters_of options)) of
              Inl e \<Rightarrow> Inl e
            | Inr conds \<Rightarrow>
               (case select_all d tableName conds (orderBy_of options)
                       (orderDirection_of options) (limit_of options) (offset_of options) of
                  Inl e \<Rightarrow> Inl e
                | Inr results \<Rightarrow> Inr (map (parse_row JSON_parse) results))))"

definition getLogsFromDatabase ::
  "(string \<Rightarrow> jsval option) \<Rightarrow> string \<Rightarrow> query_options \<Rightarrow> database
     \<Rightarrow> error + (string \<times> jsval) list list" where
  "getLogsFromDatabase JSON_parse eventName options d =
     (case getLogsFromDatabase_try JSON_parse eventName options d of
        Inl e \<Rightarrow> Inr []
      | Inr rows \<Rightarrow> Inr rows)"

section \<open>Backfill driver (logs)\<close>

subsection \<open>\<^verbatim>\<open>getContractLogs\<close>\<close>

text \<open>
  The chain client's \<^verbatim>\<open>getLogs\<close> is outside the repository.  A call returns
  logs, rejects with an \<^verbatim>\<open>Error\<close> carrying a message, or rejects with a value
  that is not an \<^verbatim>\<open>Error\<close>.  \<^verbatim>\<open>getContractLogs\<close> refuses a range with
  \<^verbatim>\<open>fromBlock > toBlock\<close> without calling the client, and rethrows every
  failure as a new \<^verbatim>\<open>Error\<close>, whose message is its result \<open>Inl\<close> here.
\<close>

datatype chain_result = ChainLogs "log_record list" | ChainError string | ChainThrown

definition range_text :: "int \<Rightarrow> int \<Rightarrow> string" where
  "range_text fromBlock toBlock = bigint_toString fromBlock @ ''-'' @ bigint_toString toBlock"

definition getContractLogs ::
  "string \<Rightarrow> abi_item \<Rightarrow> int \<Rightarrow> int \<Rightarrow> (int \<Rightarrow> int \<Rightarrow> chain_result) \<Rightarrow> string + log_record list" where
  "getContractLogs contractAddress abi fromBlock toBlock getLogs =
     (let attempt =
            (if fromBlock > toBlock then
               ChainError (''Invalid block range: fromBlock ('' @ bigint_toString fromBlock
                            @ '') > toBlock ('' @ bigint_toString toBlock @ '')'')
             else getLogs fromBlock toBlock)
      in case attempt of
           ChainLogs logs \<Rightarrow> Inr logs
         | ChainError message \<Rightarrow>
             if includes_str message ''Log response size exceeded'' then
               Inl (''Too many logs for range '' @ range_text fromBlock toBlock
                    @ ''. Try smaller block range.'')
             else if includes_str message ''rate limit'' then
               Inl (''Rate limit exceeded for range '' @ range_text fromBlock toBlock
                    @ ''. Retrying with delay...'')
             else
               Inl (''Failed to fetch logs for '' @ abi_name abi @ '' on contract ''
                    @ contractAddress @ '': '' @ message)
         | ChainThrown \<Rightarrow>
             Inl (''Failed to fetch logs for '' @ abi_name abi @ '' on contract ''
                  @ contractAddress @ '': Unknown error''))"

subsection \<open>\<^verbatim>\<open>processEventLog\<close>\<close>

text \<open>
  A log without transaction hash or block number (\<^verbatim>\<open>!log.transactionHash\<close>,
  \<^verbatim>\<open>!log.blockNumber\<close>: also the empty string and \<^verbatim>\<open>0n\<close>) is rejected.  The
  \<^verbatim>\<open>catch\<close> block prints \<^verbatim>\<open>JSON.stringify(log)\<close> before rethrowing, which
  itself throws when the log holds a \<^verbatim>\<open>bigint\<close>.  The caller's loop catches
  whatever is thrown for one log and goes on with the next.
\<close>

definition processEventLog :: "log_record \<Rightarrow> abi_item \<Rightarrow> world \<Rightarrow> error + world" where
  "processEventLog log abi w =
     (if log_transactionHash log = None \<or> log_transactionHash log = Some []
         \<or> log_blockNumber log = None \<or> log_blockNumber log = Some 0
      then
        (if log_blockNumber log \<noteq> None
            \<or> isl (JSON_stringify (JArr (logArgsArray_of log)))
         then Inl (TypeError ''Do not know how to serialize a BigInt'')
         else Inl (Error ''Invalid log structure: missing required fields''))
      else Inr (saveLogToDatabase log (abi_name abi) w))"

fun store_logs :: "log_record list \<Rightarrow> abi_item \<Rightarrow> world \<Rightarrow> world" where
  "store_logs [] abi w = w"
| "store_logs (log # logs) abi w =
     store_logs logs abi (case processEventLog log abi w of Inl e \<Rightarrow> w | Inr w' \<Rightarrow> w')"

subsection \<open>\<^verbatim>\<open>processContractEventRange\<close>\<close>

text \<open>
  What the driver does is recorded as a trace: each call of
  \<^verbatim>\<open>getContractLogs\<close>, each \<^verbatim>\<open>sleep\<close> with its delay in milliseconds, each
  split with its midpoint, and how a unit ends (logs stored, single block
  skipped, retries exhausted).  The state also counts the fetches made so far:
  the chain client is a function of that count and of the range, so that the
  same range may fail at one attempt and succeed at the next.
\<close>

datatype event =
    Fetch int int
  | Sleep int
  | Split int int int
  | SkipBlock int
  | GiveUp int int
  | Complete int int

record driver_state =
  ds_world :: world
  ds_fetches :: nat
  ds_trace :: "event list"

definition log_event :: "event \<Rightarrow> driver_state \<Rightarrow> driver_state" where
  "log_event e s = s\<lparr>ds_trace := ds_trace s @ [e]\<rparr>"


definition begin_fetch :: "int \<Rightarrow> int \<Rightarrow> driver_state \<Rightarrow> driver_state" where
  "begin_fetch fromBlock toBlock s =
     log_event (Fetch fromBlock toBlock) (s\<lparr>ds_fetches := ds_fetches s + 1\<rparr>)"

text \<open>The two tests on \<^verbatim>\<open>errorMessage\<close>.\<close>

definition is_rate_limit :: "string \<Rightarrow> bool" where
  "is_rate_limit errorMessage =
     (includes_str errorMessage ''rate limit'' \<or> includes_str errorMessage ''429'')"

definition is_too_many_logs :: "string \<Rightarrow> bool" where
  "is_too_many_logs errorMessage =
     (includes_str errorMessage ''Log response size exceeded''
      \<or> includes_str errorMessage ''too many logs'')"

text \<open>
  \<^verbatim>\<open>fromBlock + (toBlock - fromBlock) / 2n\<close>: division of \<^verbatim>\<open>bigint\<close>s
  truncates towards zero.
\<close>

definition bigint_div :: "int \<Rightarrow> int \<Rightarrow> int" where
  "bigint_div a b = sgn a * sgn b * (\<bar>a\<bar> div \<bar>b\<bar>)"

definition midBlock :: "int \<Rightarrow> int \<Rightarrow> int" where
  "midBlock fromBlock toBlock = fromBlock + bigint_div (toBlock - fromBlock) 2"

text \<open>
  The \<^verbatim>\<open>while (retryCount <= maxRetries)\<close> loop with its recursive calls.
  \<^verbatim>\<open>retryCount\<close> and \<^verbatim>\<open>maxRetries\<close> are integral numbers.  \<open>None\<close> is a
  call that never returns; the function has no other way of not returning a
  state, since nothing in its body throws outside a \<^verbatim>\<open>try\<close> block.
  The \<^verbatim>\<open>batchNumber\<close> argument only labels log lines and is left out.
\<close>

partial_function (option) retry_loop ::
  "(nat \<Rightarrow> int \<Rightarrow> int \<Rightarrow> chain_result) \<Rightarrow> string \<Rightarrow> abi_item \<Rightarrow> int \<Rightarrow> int \<Rightarrow> int \<Rightarrow> int
     \<Rightarrow> driver_state \<Rightarrow> driver_state option" where
  "retry_loop chain contractAddress abi fromBlock toBlock maxRetries retryCount s =
     (if retryCount \<le> maxRetries then
        (let s1 = begin_fetch fromBlock toBlock s in
         case getContractLogs contractAddress abi fromBlock toBlock (chain (ds_fetches s)) of
           Inr logs \<Rightarrow>
             Some (log_event (Complete fromBlock toBlock)
                     (s1\<lparr>ds_world := store_logs logs abi (ds_world s1)\<rparr>))
         | Inl errorMessage \<Rightarrow>
             (let retryCount' = retryCount + 1 in
              if is_rate_limit errorMessage \<and> retryCount' \<le> maxRetries then
                retry_loop chain contractAddress abi fromBlock toBlock maxRetries retryCount'
                  (log_event (Sleep (2 ^ nat retryCount' * 1000)) s1)
              else if is_too_many_logs errorMessage then
                (if fromBlock = toBlock then Some (log_event (SkipBlock fromBlock) s1)
                 else
                   (let mid = midBlock fromBlock toBlock in
                    Option.bind
                      (retry_loop chain contractAddress abi fromBlock mid maxRetries 0
                         (log_event (Split fromBlock mid toBlock) s1))
                      (\<lambda>s2. retry_loop chain contractAddress abi (mid + 1) toBlock maxRetries 0 s2)))
              else if retryCount' > maxRetries then Some (log_event (GiveUp fromBlock toBlock) s1)
              else
                retry_loop chain contractAddress abi fromBlock toBlock maxRetries retryCount'
                  (log_event (Sleep (1000 * retryCount')) s1)))
      else Some s)"

declare retry_loop.simps [code]

definition processContractEventRange ::
  "(nat \<Rightarrow> int \<Rightarrow> int \<Rightarrow> chain_result) \<Rightarrow> string \<Rightarrow> abi_item \<Rightarrow> int \<Rightarrow> int \<Rightarrow> int
     \<Rightarrow> driver_state \<Rightarrow> driver_state option" where
  "processContractEventRange chain contractAddress abi fromBlock toBlock maxRetries s =
     retry_loop chain contractAddress abi fromBlock toBlock maxRetries 0 s"

text \<open>
  The callback that \<^verbatim>\<open>processHistoricalEvents\<close> gives to the range batcher:
  it resets the logger's counters and processes every contract and event
  combination in turn, with the default \<^verbatim>\<open>maxRetries = 3\<close>.
\<close>

fun process_units ::
  "(nat \<Rightarrow> int \<Rightarrow> int \<Rightarrow> chain_result) \<Rightarrow> (string \<times> abi_item) list \<Rightarrow> int \<Rightarrow> int
     \<Rightarrow> driver_state \<Rightarrow> driver_state option" where
  "process_units chain [] fromBlock toBlock s = Some s"
| "process_units chain ((contractAddress, abi) # units) fromBlock toBlock s =
     Option.bind (processContractEventRange chain contractAddress abi fromBlock toBlock 3 s)
       (process_units chain units fromBlock toBlock)"

definition reset_stats :: "driver_state \<Rightarrow> driver_state" where
  "reset_stats s =
     s\<lparr>ds_world := (ds_world s)\<lparr>w_stats :=
          \<lparr>stat_duplicates = 0, stat_processed = 0, stat_errors = 0\<rparr>\<rparr>\<rparr>"

definition process_batch ::
  "(nat \<Rightarrow> int \<Rightarrow> int \<Rightarrow> chain_result) \<Rightarrow> string list \<Rightarrow> abi_item list \<Rightarrow> int \<Rightarrow> int
     \<Rightarrow> driver_state \<Rightarrow> driver_state option" where
  "process_batch chain contractAddresses abis fromBlock toBlock s =
     process_units chain (List.product contractAddresses abis) fromBlock toBlock (reset_stats s)"


section \<open>Vocabulary for the statements below\<close>

text \<open>The rows stored for an event, and the rows stored under an idempotence key.\<close>

definition stored_rows :: "world \<Rightarrow> string \<Rightarrow> row list" where
  "stored_rows w eventName =
     (case db_tables (w_db w) (tableName_of eventName) of None \<Rightarrow> [] | Some t \<Rightarrow> tbl_rows t)"




text \<open>
  The event \<^verbatim>\<open>Transfer(address,address,uint256)\<close>, a store in which only its
  table has been synthesized, and a log of that event.
\<close>

definition transfer_abi :: abi_item where
  "transfer_abi =
     \<lparr>abi_type = ''event'', abi_name = ''Transfer'',
      abi_inputs = [''address'', ''address'', ''uint256'']\<rparr>"

definition no_stats :: batch_stats where
  "no_stats = \<lparr>stat_duplicates = 0, stat_processed = 0, stat_errors = 0\<rparr>"

definition fresh_world :: "string \<Rightarrow> world" where
  "fresh_world now =
     \<lparr>w_db = generateDatabaseSchemas [transfer_abi] \<lparr>db_tables = Map.empty, db_now = now\<rparr>,
      w_stats = no_stats\<rparr>"

definition transfer_log ::
  "string \<Rightarrow> string \<Rightarrow> int \<Rightarrow> int option \<Rightarrow> string \<Rightarrow> string \<Rightarrow> int \<Rightarrow> log_record" where
  "transfer_log contractAddress txHash blockNumber logIndex sender recipient amount =
     \<lparr>log_address = contractAddress, log_transactionHash = Some txHash,
      log_blockNumber = Some blockNumber, log_logIndex = logIndex,
      log_args = Some [JStr sender, JStr recipient, JBigInt amount]\<rparr>"

definition no_options :: query_options where
  "no_options =
     \<lparr>opt_filters = None, opt_limit = None, opt_offset = None, opt_orderBy = None,
      opt_orderDirection = None\<rparr>"

definition fresh_driver_state :: "string \<Rightarrow> driver_state" where
  "fresh_driver_state now = \<lparr>ds_world = fresh_world now, ds_fetches = 0, ds_trace = []\<rparr>"

section \<open>Properties of the range batcher\<close>

subsection \<open>The loop, from any reachable state\<close>

lemma contiguous_blocks: "contiguous a b rs \<Longrightarrow> concat (map blocks_of rs) = [a..b]"
proof (induction rs arbitrary: a)
  case Nil
  then show ?case by simp
next
  case (Cons r rs)
  obtain f t where r: "r = (f, t)" by (cases r)
  from Cons.prems r have ft: "f = a" "a \<le> t" "t \<le> b" and rest: "contiguous (t + 1) b rs"
    by simp_all
  have "[a..b] = [a..t] @ [t + 1..b]"
    using ft by (intro upto_split2)
  with Cons.IH [OF rest] r ft show ?case by simp
qed

lemma batch_loop_tiles:
  assumes bs: "1 \<le> batchSize"
  shows "currentBlock \<le> lastBlock \<Longrightarrow> nextBlock < lastBlock \<Longrightarrow>
         \<exists>rs. batch_loop record_range lastBlock batchSize currentBlock nextBlock acc = Some (acc @ rs)
              \<and> contiguous currentBlock lastBlock rs
              \<and> list_all (range_within (batchSize + 1)) rs"
proof (induction "nat (lastBlock - currentBlock)" arbitrary: currentBlock nextBlock acc
       rule: less_induct)
  case less
  show ?case
  proof (cases "currentBlock + batchSize \<ge> lastBlock")
    case True
    have "batch_loop record_range lastBlock batchSize currentBlock nextBlock acc
            = batch_loop record_range lastBlock batchSize (lastBlock + 1) lastBlock
                (acc @ [(currentBlock, lastBlock)])"
      using less.prems True by (subst batch_loop.simps) (simp add: record_range_def Let_def)
    also have "\<dots> = Some (acc @ [(currentBlock, lastBlock)])"
      by (subst batch_loop.simps) simp
    finally show ?thesis
      using less.prems True by simp
  next
    case False
    let ?nb = "currentBlock + batchSize"
    have step: "batch_loop record_range lastBlock batchSize currentBlock nextBlock acc
            = batch_loop record_range lastBlock batchSize (?nb + 1) ?nb
                (acc @ [(currentBlock, ?nb)])"
      using less.prems False by (subst batch_loop.simps) (simp add: record_range_def Let_def)
    have smaller: "nat (lastBlock - (?nb + 1)) < nat (lastBlock - currentBlock)"
      using bs False by simp
    from less.hyps [OF smaller, of ?nb "acc @ [(currentBlock, ?nb)]"] False
    obtain rs where rs:
      "batch_loop record_range lastBlock batchSize (?nb + 1) ?nb (acc @ [(currentBlock, ?nb)])
         = Some ((acc @ [(currentBlock, ?nb)]) @ rs)"
      "contiguous (?nb + 1) lastBlock rs"
      "list_all (range_within (batchSize + 1)) rs"
      by auto
    have "batch_loop record_range lastBlock batchSize currentBlock nextBlock acc
            = Some (acc @ ((currentBlock, ?nb) # rs))"
      using step rs(1) by simp
    moreover have "contiguous currentBlock lastBlock ((currentBlock, ?nb) # rs)"
      using rs(2) bs False by simp
    moreover have "list_all (range_within (batchSize + 1)) ((currentBlock, ?nb) # rs)"
      using rs(3) bs by simp
    ultimately show ?thesis by blast
  qed
qed

lemma emitted_ranges_tiles:
  assumes "firstBlock < lastBlock" and "1 \<le> batchSize"
  shows "\<exists>rs. emitted_ranges firstBlock lastBlock (Some batchSize) = Some rs
              \<and> contiguous firstBlock lastBlock rs
              \<and> list_all (range_within (batchSize + 1)) rs"
proof -
  from assms have "currentBlock_ok": "firstBlock \<le> lastBlock" by simp
  from batch_loop_tiles [OF assms(2) this assms(1), of "[]"] assms(2)
  show ?thesis
    by (auto simp: emitted_ranges_def loopThroughBlocks_def)
qed

text \<open>
  When \<open>lastBlock \<le> firstBlock\<close> the loop guard \<^verbatim>\<open>nextBlock < lastBlock\<close> is
  false at entry (\<^verbatim>\<open>nextBlock\<close> starts as \<^verbatim>\<open>firstBlock\<close>): the callback is not
  invoked, for the empty interval and for the single-block one alike.
\<close>

lemma degenerate_interval_emits_nothing:
  "lastBlock \<le> firstBlock \<Longrightarrow> emitted_ranges firstBlock lastBlock defaultBatchSize = Some []"
  by (subst emitted_ranges_def, subst loopThroughBlocks_def, subst batch_loop.simps) simp

text \<open>
  C1 (as amended).  For every \<open>firstBlock < lastBlock\<close> and every
  \<open>batchSize \<ge> 1\<close> the loop returns, and the ranges it hands to the callback
  tile \<open>[firstBlock, lastBlock]\<close> exactly: they are contiguous, they do not
  overlap, their union is the whole interval, and each has an inclusive
  length of at most \<open>batchSize + 1\<close> (\<^verbatim>\<open>nextBlock = currentBlock + batchSize\<close>
  is the inclusive upper end of the range).
\<close>

theorem loopThroughBlocks_tiles:
  assumes "firstBlock < lastBlock" and "1 \<le> batchSize"
  shows "\<exists>rs. emitted_ranges firstBlock lastBlock (Some batchSize) = Some rs
              \<and> exact_tiling (batchSize + 1) firstBlock lastBlock rs"
  using emitted_ranges_tiles [OF assms] contiguous_blocks
  unfolding exact_tiling_def by blast

theorem loopThroughBlocks_tiles_witness:
  "(1::int) < 10 \<and> (1::int) \<le> 3
   \<and> emitted_ranges 1 10 (Some 3) = Some [(1, 4), (5, 8), (9, 10)]
   \<and> exact_tiling (3 + 1) 1 10 [(1, 4), (5, 8), (9, 10)]"
proof -
  have run: "emitted_ranges 1 10 (Some 3) = Some [(1, 4), (5, 8), (9, 10)]"
    by code_simp
  from loopThroughBlocks_tiles [of 1 10 3] run show ?thesis by simp
qed

text \<open>
  C1 as stated fails: with \<open>batchSize = 3\<close> over \<open>[1, 10]\<close> the first range
  handed to the callback is \<open>[1, 4]\<close>, four blocks long.
\<close>

theorem loopThroughBlocks_length_counterexample:
  "emitted_ranges 1 10 (Some 3) = Some [(1, 4), (5, 8), (9, 10)]
   \<and> \<not> exact_tiling 3 1 10 [(1, 4), (5, 8), (9, 10)]"
proof -
  have run: "emitted_ranges 1 10 (Some 3) = Some [(1, 4), (5, 8), (9, 10)]"
    by code_simp
  have "\<not> range_within 3 (1, 4)" by simp
  then have "\<not> exact_tiling 3 1 10 [(1, 4), (5, 8), (9, 10)]"
    by (simp add: exact_tiling_def)
  with run show ?thesis by simp
qed

text \<open>
  C2 (as amended).  Over \<open>[1, 10000]\<close> with \<open>batchSize = 4999\<close> the callback is
  invoked exactly twice, with \<open>[1, 5000]\<close> and then \<open>[5001, 10000]\<close>.
\<close>

theorem scenario_B_batches:
  "emitted_ranges 1 10000 (Some 4999) = Some [(1, 5000), (5001, 10000)]"
  by code_simp

text \<open>
  C2 as stated fails: the run does not produce the three ranges
  \<open>[1,4999], [5000,9998], [9999,10000]\<close>.
\<close>

theorem scenario_B_counterexample:
  "emitted_ranges 1 10000 (Some 4999) \<noteq> Some [(1, 4999), (5000, 9998), (9999, 10000)]"
proof -
  have "emitted_ranges 1 10000 (Some 4999) = Some [(1, 5000), (5001, 10000)]"
    by code_simp
  then show ?thesis by simp
qed

section \<open>Properties of the column type mapping\<close>

lemma startsWith_prefix: "startsWith s p = prefix p s"
  by (induction s p rule: startsWith.induct) auto

lemma includes_str_sublist: "includes_str s p = sublist p s"
  by (induction s) (auto simp: startsWith_prefix sublist_Cons_right)

text \<open>
  The integer types of at most 64 bits get an \<^verbatim>\<open>INTEGER\<close> column, and the 128-
  and 256-bit ones a \<^verbatim>\<open>TEXT\<close> column.
\<close>

lemma narrow_integers_are_INTEGER:
  "list_all (\<lambda>w. getSqlTypeFromEthType (''uint'' @ w) = ''INTEGER''
                 \<and> getSqlTypeFromEthType (''int'' @ w) = ''INTEGER'')
     [''8'', ''16'', ''24'', ''32'', ''40'', ''48'', ''56'', ''64'']"
  by (simp add: getSqlTypeFromEthType_def)

lemma integers_128_256_are_TEXT:
  "list_all (\<lambda>w. getSqlTypeFromEthType (''uint'' @ w) = ''TEXT''
                 \<and> getSqlTypeFromEthType (''int'' @ w) = ''TEXT'')
     [''128'', ''256'']"
  by (simp add: getSqlTypeFromEthType_def)

text \<open>
  Every other width above 64 bits gets an \<^verbatim>\<open>INTEGER\<close> column as well: the test
  is for the digits \<^verbatim>\<open>256\<close> or \<^verbatim>\<open>128\<close> in the type tag, not for the width.
\<close>

lemma other_wide_integers_are_INTEGER:
  "list_all (\<lambda>w. getSqlTypeFromEthType (''uint'' @ w) = ''INTEGER''
                 \<and> getSqlTypeFromEthType (''int'' @ w) = ''INTEGER'')
     [''72'', ''80'', ''88'', ''96'', ''104'', ''112'', ''120'', ''136'', ''144'', ''152'',
      ''160'', ''168'', ''176'', ''184'', ''192'', ''200'', ''208'', ''216'', ''224'', ''232'',
      ''240'', ''248'']"
  by (simp add: getSqlTypeFromEthType_def)

text \<open>
  C7 (the code departs from the claim).  A 96-bit unsigned integer is wider
  than 64 bits, and its column is \<^verbatim>\<open>INTEGER\<close>, not \<^verbatim>\<open>TEXT\<close>.
\<close>

theorem uint96_column_is_INTEGER:
  "getSqlTypeFromEthType ''uint96'' = ''INTEGER''"
  by (simp add: getSqlTypeFromEthType_def)

text \<open>
  What follows from it: the largest 96-bit value, stored through
  \<^verbatim>\<open>formatValueForSql\<close> in such a column, does not fit 64 bits and is kept as
  the nearest double, \<open>2^96\<close>.
\<close>

lemma uint96_value_loses_digits:
  "formatValueForSql (JBigInt 79228162514264337593543950335)
     = Inr (JStr ''79228162514264337593543950335'')
   \<and> apply_affinity (getSqlTypeFromEthType ''uint96'') (SText ''79228162514264337593543950335'')
     = SReal 79228162514264337593543950336"
  by code_simp

text \<open>
  C8 (the code departs from the claim).  An array of 8-bit unsigned integers
  gets an \<^verbatim>\<open>INTEGER\<close> column: the test for an integer type comes first and
  looks at the start of the tag only, so the branch for arrays is not reached.
\<close>

theorem uint8_array_column_is_INTEGER:
  "getSqlTypeFromEthType ''uint8[]'' = ''INTEGER''"
  by (simp add: getSqlTypeFromEthType_def)

text \<open>
  Arrays of byte strings get a \<^verbatim>\<open>BLOB\<close> column in the same way; arrays of
  addresses, booleans and strings do reach the branch for arrays.
\<close>

lemma array_columns:
  "map getSqlTypeFromEthType [''bytes32[]'', ''address[]'', ''bool[]'', ''string[]'', ''uint256[]'']
     = [''BLOB'', ''TEXT'', ''TEXT'', ''TEXT'', ''TEXT'']"
  by (simp add: getSqlTypeFromEthType_def)

text \<open>
  The insert path serializes an array of numbers to JSON text; an array that
  holds a \<^verbatim>\<open>bigint\<close> (viem decodes the integer types above 48 bits to
  \<^verbatim>\<open>bigint\<close>) makes \<^verbatim>\<open>JSON.stringify\<close> throw instead.
\<close>

lemma array_of_numbers_is_serialized:
  "formatValueForSql (JArr [JNum 1, JNum 2]) = Inr (JStr ''[1,2]'')"
  by code_simp

lemma array_of_bigints_throws:
  "formatValueForSql (JArr [JBigInt 1, JBigInt 2])
     = Inl (TypeError ''Do not know how to serialize a BigInt'')"
  by code_simp

section \<open>Properties of the event store\<close>

subsection \<open>Evaluation of the Transfer scenario\<close>

lemma tableName_Transfer: "tableName_of ''Transfer'' = ''event_transfer''"
  by code_simp

lemma lower_names:
  "toLowerCase ''id'' = ''id''"
  "toLowerCase ''contract_address'' = ''contract_address''"
  "toLowerCase ''transaction_hash'' = ''transaction_hash''"
  "toLowerCase ''block_number'' = ''block_number''"
  "toLowerCase ''log_index'' = ''log_index''"
  "toLowerCase ''timestamp'' = ''timestamp''"
  "toLowerCase ''param_0_address'' = ''param_0_address''"
  "toLowerCase ''param_1_address'' = ''param_1_address''"
  "toLowerCase ''param_2_uint256'' = ''param_2_uint256''"
  by code_simp+

lemma transfer_table:
  "event_table transfer_abi =
     \<lparr>tbl_columns =
        [\<lparr>col_name = ''id'', col_type = ''INTEGER'', col_notnull = False, col_default = AutoIncrement\<rparr>,
         \<lparr>col_name = ''contract_address'', col_type = ''TEXT'', col_notnull = True, col_default = NoDefault\<rparr>,
         \<lparr>col_name = ''transaction_hash'', col_type = ''TEXT'', col_notnull = True, col_default = NoDefault\<rparr>,
         \<lparr>col_name = ''block_number'', col_type = ''INTEGER'', col_notnull = True, col_default = NoDefault\<rparr>,
         \<lparr>col_name = ''log_index'', col_type = ''INTEGER'', col_notnull = True, col_default = NoDefault\<rparr>,
         \<lparr>col_name = ''timestamp'', col_type = ''DATETIME'', col_notnull = False, col_default = CurrentTimestamp\<rparr>,
         \<lparr>col_name = ''param_0_address'', col_type = ''TEXT'', col_notnull = False, col_default = NoDefault\<rparr>,
         \<lparr>col_name = ''param_1_address'', col_type = ''TEXT'', col_notnull = False, col_default = NoDefault\<rparr>,
         \<lparr>col_name = ''param_2_uint256'', col_type = ''TEXT'', col_notnull = False, col_default = NoDefault\<rparr>],
      tbl_unique = [[''transaction_hash'', ''log_index'']], tbl_rows = [], tbl_next_id = 1\<rparr>"
  by code_simp

lemma fresh_table:
  "db_tables (w_db (fresh_world now)) ''event_transfer'' = Some (event_table transfer_abi)"
  by (simp add: fresh_world_def transfer_abi_def create_table_if_not_exists_def tableName_Transfer)

lemma fresh_world_eq:
  "fresh_world now =
     \<lparr>w_db = \<lparr>db_tables = [''event_transfer'' \<mapsto> event_table transfer_abi], db_now = now\<rparr>,
      w_stats = no_stats\<rparr>"
  by (simp add: fresh_world_def transfer_abi_def create_table_if_not_exists_def tableName_Transfer)

lemma decimal_1e18: "bigint_toString 1000000000000000000 = ''1000000000000000000''"
  by code_simp

lemma affinity_TEXT: "affinity_of ''TEXT'' = AText"
  by code_simp
lemma affinity_INTEGER: "affinity_of ''INTEGER'' = AInteger"
  by code_simp

lemma parse_indices: "parseInt10 ''0'' = Some 0" "parseInt10 ''1'' = Some 1" "parseInt10 ''2'' = Some 2"
  by code_simp+


lemma transfer_saved:
  "saveLogToDatabase (transfer_log addr h bn li f t 1000000000000000000) ''Transfer'' (fresh_world now)
    = \<lparr>w_db = \<lparr>db_tables = [''event_transfer'' \<mapsto>
               (event_table transfer_abi)\<lparr>tbl_rows :=
                  [[(''id'', SInt 1), (''contract_address'', SText addr), (''transaction_hash'', SText h),
                    (''block_number'', SInt (wrap_int64 bn)),
                    (''log_index'', SInt (case li of None \<Rightarrow> 0 | Some n \<Rightarrow> n)),
                    (''timestamp'', SText now), (''param_0_address'', SText f), (''param_1_address'', SText t),
                    (''param_2_uint256'', SText ''1000000000000000000'')]],
                  tbl_next_id := 2\<rparr>], db_now = now\<rparr>,
         w_stats = no_stats\<lparr>stat_processed := 1\<rparr>\<rparr>"
  apply (simp add: saveLogToDatabase_def saveLogToDatabase_try_def tableName_Transfer fresh_table transfer_table
      transfer_log_def js_of_hash_def sql_bind_def select_where_def column_named_def same_ident_def lower_names
      column_value_def  logIndex_or_0_def parse_indices js_index_def formatValueForSql_def
      insertableColumns_of_def bound_values_def insert_values_def logArgsArray_of_def
     decimal_1e18 insert_into_def new_row_def apply_affinity_def affinity_TEXT affinity_INTEGER
     violates_notnull_def violates_unique_def row_value_def default_value_def
     split: option.splits)
  apply (simp add: fresh_world_eq transfer_table no_stats_def)
  done

lemma transfer_queried:
  "map_sum id (map (\<lambda>r. map_of r ''param_2_uint256''))
           (getLogsFromDatabase JSON_parse ''Transfer'' no_options
              (w_db (saveLogToDatabase (transfer_log addr h bn li f t 1000000000000000000) ''Transfer''
                 (fresh_world now))))
         = Inr [Some (JStr ''1000000000000000000'')]"
  apply (simp add: transfer_saved)
  apply (simp add: getLogsFromDatabase_def getLogsFromDatabase_try_def tableName_Transfer no_options_def
       filters_of_def limit_of_def offset_of_def orderBy_of_def orderDirection_of_def
       select_all_def select_where_def transfer_table column_named_def same_ident_def lower_names
       order_rows_def limit_offset_def parse_row_def parse_field_def)
  done

subsection \<open>Idempotent insert\<close>










subsection \<open>Wide integers are kept as decimal text\<close>

text \<open>
  C9.  A \<^verbatim>\<open>Transfer\<close> log whose \<^verbatim>\<open>uint256\<close> argument is
  \<open>1000000000000000000\<close> (a \<^verbatim>\<open>bigint\<close>), with any addresses, transaction hash,
  block number and log index, is inserted into a store that holds the
  synthesized, empty table.  On the insert path \<^verbatim>\<open>formatValueForSql\<close> turns the
  value into the string \<^verbatim>\<open>"1000000000000000000"\<close>; the \<^verbatim>\<open>values\<close> array of the
  insert holds that string for the column (while the block number stays a
  \<^verbatim>\<open>bigint\<close>); what is bound to the statement is text, not an integer; the
  column is declared \<^verbatim>\<open>TEXT\<close>; the one stored row holds that text; and the
  query, whatever \<^verbatim>\<open>JSON.parse\<close> does, returns one row whose field is that
  same string.
\<close>

theorem uint256_kept_as_decimal_text:
  "let log = transfer_log contractAddress txHash blockNumber logIndex sender recipient
               1000000000000000000;
       cols = insertableColumns_of (event_table transfer_abi);
       w = saveLogToDatabase log ''Transfer'' (fresh_world now)
   in formatValueForSql (JBigInt 1000000000000000000) = Inr (JStr ''1000000000000000000'')
      \<and> cols = [''contract_address'', ''transaction_hash'', ''block_number'', ''log_index'',
                 ''param_0_address'', ''param_1_address'', ''param_2_uint256'']
      \<and> insert_values log cols
          = Inr [JStr contractAddress, JStr txHash, JBigInt blockNumber, JNum (logIndex_or_0 log),
                 JStr sender, JStr recipient, JStr ''1000000000000000000'']
      \<and> bound_values log cols
          = Inr [SText contractAddress, SText txHash, SInt (wrap_int64 blockNumber),
                 SInt (logIndex_or_0 log), SText sender, SText recipient,
                 SText ''1000000000000000000'']
      \<and> getSqlTypeFromEthType ''uint256'' = ''TEXT''
      \<and> map_option col_type (column_named (event_table transfer_abi) ''param_2_uint256'')
          = Some ''TEXT''
      \<and> map (\<lambda>r. row_value r ''param_2_uint256'') (stored_rows w ''Transfer'')
          = [SText ''1000000000000000000'']
      \<and> map_sum id (map (\<lambda>r. map_of r ''param_2_uint256''))
            (getLogsFromDatabase JSON_parse ''Transfer'' no_options (w_db w))
          = Inr [Some (JStr ''1000000000000000000'')]"
proof -
  let ?log = "transfer_log contractAddress txHash blockNumber logIndex sender recipient
                1000000000000000000"
  let ?cols = "[''contract_address'', ''transaction_hash'', ''block_number'', ''log_index'',
                ''param_0_address'', ''param_1_address'', ''param_2_uint256'']"
  have fmt: "formatValueForSql (JBigInt 1000000000000000000) = Inr (JStr ''1000000000000000000'')"
    by (simp add: formatValueForSql_def decimal_1e18)
  have cols: "insertableColumns_of (event_table transfer_abi) = ?cols"
    by (simp add: insertableColumns_of_def transfer_table)
  have vals: "insert_values ?log ?cols
          = Inr [JStr contractAddress, JStr txHash, JBigInt blockNumber, JNum (logIndex_or_0 ?log),
                 JStr sender, JStr recipient, JStr ''1000000000000000000'']"
    by (simp add: insert_values_def logArgsArray_of_def column_value_def transfer_log_def
          js_of_hash_def parse_indices js_index_def formatValueForSql_def decimal_1e18)
  have bound: "bound_values ?log ?cols
          = Inr [SText contractAddress, SText txHash, SInt (wrap_int64 blockNumber),
                 SInt (logIndex_or_0 ?log), SText sender, SText recipient,
                 SText ''1000000000000000000'']"
    by (simp add: bound_values_def vals sql_bind_def)
  have ty: "getSqlTypeFromEthType ''uint256'' = ''TEXT''"
    by (simp add: getSqlTypeFromEthType_def)
  have col: "map_option col_type (column_named (event_table transfer_abi) ''param_2_uint256'')
          = Some ''TEXT''"
    by (simp add: column_named_def transfer_table same_ident_def lower_names)
  have rows: "map (\<lambda>r. row_value r ''param_2_uint256'')
          (stored_rows (saveLogToDatabase ?log ''Transfer'' (fresh_world now)) ''Transfer'')
        = [SText ''1000000000000000000'']"
    by (simp add: transfer_saved stored_rows_def tableName_Transfer row_value_def)
  from fmt cols vals bound ty col rows transfer_queried [of JSON_parse contractAddress txHash
      blockNumber logIndex sender recipient now]
  show ?thesis
    by (simp add: Let_def)
qed

subsection \<open>The query never throws\<close>

text \<open>
  A missing table gives the empty result without any failure.  The statement
  fails when a filter names a column the table does not have, or when the
  \<^verbatim>\<open>orderBy\<close> column does not exist; a filter value that cannot be serialized
  fails before the statement is built.
\<close>

lemma missing_table_gives_empty:
  "db_tables d (tableName_of eventName) = None
     \<Longrightarrow> getLogsFromDatabase JSON_parse eventName options d = Inr []"
  by (simp add: getLogsFromDatabase_def getLogsFromDatabase_try_def)

lemma unknown_orderBy_fails:
  assumes "db_tables d (tableName_of eventName) = Some t"
      and "first_error (map filter_value (filters_of options)) = Inr conds"
      and "select_where t conds = Inr rs"
      and "column_named t (orderBy_of options) = None"
  shows "isl (getLogsFromDatabase_try JSON_parse eventName options d)"
  using assms by (simp add: getLogsFromDatabase_try_def select_all_def)

lemma unknown_filter_column_fails:
  assumes "db_tables d (tableName_of eventName) = Some t"
      and "first_error (map filter_value (filters_of options)) = Inr conds"
      and "(k, v) \<in> set conds" and "column_named t k = None"
  shows "isl (getLogsFromDatabase_try JSON_parse eventName options d)"
proof -
  from assms(3,4) have "find (\<lambda>cond. column_named t (fst cond) = None) conds \<noteq> None"
    by (auto simp: find_None_iff)
  then have "isl (select_where t conds)"
    by (auto simp: select_where_def split: option.splits)
  with assms(1,2) show ?thesis
    by (auto simp: getLogsFromDatabase_try_def select_all_def split: sum.splits)
qed

lemma unserializable_filter_fails:
  assumes "db_tables d (tableName_of eventName) = Some t"
      and "filters_of options = (k, JArr [JBigInt n]) # rest"
  shows "isl (getLogsFromDatabase_try JSON_parse eventName options d)"
  using assms
  by (simp add: getLogsFromDatabase_try_def filter_value_def formatValueForSql_def stringified_def)

text \<open>
  C10.  For every event name, every option record, every store and every
  behaviour of \<^verbatim>\<open>JSON.parse\<close>, the query returns a sequence of rows and never
  an exception; and whenever anything inside its \<^verbatim>\<open>try\<close> block fails, what it
  returns is the empty sequence.
\<close>

theorem getLogsFromDatabase_never_throws:
  "(\<exists>rows. getLogsFromDatabase JSON_parse eventName options d = Inr rows)
   \<and> (\<forall>e. getLogsFromDatabase_try JSON_parse eventName options d = Inl e
          \<longrightarrow> getLogsFromDatabase JSON_parse eventName options d = Inr [])"
  by (simp add: getLogsFromDatabase_def split: sum.splits)

text \<open>Two failing queries: an unknown \<^verbatim>\<open>orderBy\<close> column and an unknown filter column.\<close>

theorem getLogsFromDatabase_never_throws_witness:
  "getLogsFromDatabase_try (\<lambda>s. None) ''Transfer'' (no_options\<lparr>opt_orderBy := Some ''amount''\<rparr>)
      (w_db (fresh_world ''2024-01-01 00:00:00''))
     = Inl (SqliteError ''no such column: amount'')
   \<and> getLogsFromDatabase (\<lambda>s. None) ''Transfer'' (no_options\<lparr>opt_orderBy := Some ''amount''\<rparr>)
      (w_db (fresh_world ''2024-01-01 00:00:00'')) = Inr []
   \<and> getLogsFromDatabase_try (\<lambda>s. None) ''Transfer''
      (no_options\<lparr>opt_filters := Some [(''amount'', JNum 5)]\<rparr>)
      (w_db (fresh_world ''2024-01-01 00:00:00''))
     = Inl (SqliteError ''no such column: amount'')
   \<and> getLogsFromDatabase (\<lambda>s. None) ''Transfer''
      (no_options\<lparr>opt_filters := Some [(''amount'', JNum 5)]\<rparr>)
      (w_db (fresh_world ''2024-01-01 00:00:00'')) = Inr []"
proof -
  let ?d = "w_db (fresh_world ''2024-01-01 00:00:00'')"
  let ?o1 = "no_options\<lparr>opt_orderBy := Some ''amount''\<rparr>"
  let ?o2 = "no_options\<lparr>opt_filters := Some [(''amount'', JNum 5)]\<rparr>"
  have t1: "getLogsFromDatabase_try (\<lambda>s. None) ''Transfer'' ?o1 ?d
              = Inl (SqliteError ''no such column: amount'')"
    by code_simp
  have t2: "getLogsFromDatabase_try (\<lambda>s. None) ''Transfer'' ?o2 ?d
              = Inl (SqliteError ''no such column: amount'')"
    by code_simp
  from getLogsFromDatabase_never_throws [of "\<lambda>s. None" "''Transfer''" ?o1 ?d]
       getLogsFromDatabase_never_throws [of "\<lambda>s. None" "''Transfer''" ?o2 ?d] t1 t2
  show ?thesis by blast
qed

section \<open>Properties of the backfill driver\<close>

subsection \<open>One turn of the retry loop, case by case\<close>

text \<open>For \<open>a \<le> b\<close> the truncating division is the floor.\<close>

lemma midBlock_floor: "a \<le> b \<Longrightarrow> midBlock a b = a + (b - a) div 2"
  by (cases "a = b") (simp_all add: midBlock_def bigint_div_def)

lemma retry_loop_exit:
  "\<not> rc \<le> mr \<Longrightarrow> retry_loop chain addr abi a b mr rc s = Some s"
  by (subst retry_loop.simps) simp

lemma retry_loop_success:
  assumes "rc \<le> mr" and "getContractLogs addr abi a b (chain (ds_fetches s)) = Inr logs"
  shows "retry_loop chain addr abi a b mr rc s =
           Some (log_event (Complete a b)
                   ((begin_fetch a b s)\<lparr>ds_world := store_logs logs abi (ds_world (begin_fetch a b s))\<rparr>))"
  using assms by (subst retry_loop.simps) (simp add: Let_def)

lemma retry_loop_rate_limited:
  assumes "rc \<le> mr" and "getContractLogs addr abi a b (chain (ds_fetches s)) = Inl msg"
      and "is_rate_limit msg" and "rc + 1 \<le> mr"
  shows "retry_loop chain addr abi a b mr rc s =
           retry_loop chain addr abi a b mr (rc + 1)
             (log_event (Sleep (2 ^ nat (rc + 1) * 1000)) (begin_fetch a b s))"
  using assms by (subst retry_loop.simps) (simp add: Let_def)

lemma retry_loop_single_block:
  assumes "rc \<le> mr" and "getContractLogs addr abi a a (chain (ds_fetches s)) = Inl msg"
      and "\<not> (is_rate_limit msg \<and> rc + 1 \<le> mr)" and "is_too_many_logs msg"
  shows "retry_loop chain addr abi a a mr rc s = Some (log_event (SkipBlock a) (begin_fetch a a s))"
  using assms by (subst retry_loop.simps) (auto simp: Let_def)

lemma retry_loop_split:
  assumes "rc \<le> mr" and "getContractLogs addr abi a b (chain (ds_fetches s)) = Inl msg"
      and "\<not> (is_rate_limit msg \<and> rc + 1 \<le> mr)" and "is_too_many_logs msg" and "a \<noteq> b"
  shows "retry_loop chain addr abi a b mr rc s =
           Option.bind
             (retry_loop chain addr abi a (midBlock a b) mr 0
                (log_event (Split a (midBlock a b) b) (begin_fetch a b s)))
             (retry_loop chain addr abi (midBlock a b + 1) b mr 0)"
  using assms by (subst retry_loop.simps) (auto simp: Let_def)

lemma retry_loop_exhausted:
  assumes "rc \<le> mr" and "getContractLogs addr abi a b (chain (ds_fetches s)) = Inl msg"
      and "\<not> (is_rate_limit msg \<and> rc + 1 \<le> mr)" and "\<not> is_too_many_logs msg"
      and "rc + 1 > mr"
  shows "retry_loop chain addr abi a b mr rc s = Some (log_event (GiveUp a b) (begin_fetch a b s))"
  using assms by (subst retry_loop.simps) (auto simp: Let_def)

lemma retry_loop_other_error:
  assumes "rc \<le> mr" and "getContractLogs addr abi a b (chain (ds_fetches s)) = Inl msg"
      and "\<not> (is_rate_limit msg \<and> rc + 1 \<le> mr)" and "\<not> is_too_many_logs msg"
      and "\<not> rc + 1 > mr"
  shows "retry_loop chain addr abi a b mr rc s =
           retry_loop chain addr abi a b mr (rc + 1)
             (log_event (Sleep (1000 * (rc + 1))) (begin_fetch a b s))"
  using assms by (subst retry_loop.simps) (auto simp: Let_def)

subsection \<open>The driver returns\<close>

text \<open>
  Lexicographic induction: a split recurses on strictly shorter ranges, a
  retry keeps the range and uses up one of the remaining attempts.
\<close>

lemma retry_loop_returns:
  "a \<le> b \<Longrightarrow> \<exists>s'. retry_loop chain addr abi a b mr rc s = Some s'"
proof (induction "nat (b - a)" arbitrary: a b rc s rule: less_induct)
  case outer: less
  show ?case
  proof (induction "nat (mr + 1 - rc)" arbitrary: rc s rule: less_induct)
    case inner: less
    show ?case
    proof (cases "rc \<le> mr")
      case False
      then show ?thesis by (simp add: retry_loop_exit)
    next
      case loop: True
      show ?thesis
      proof (cases "getContractLogs addr abi a b (chain (ds_fetches s))")
        case (Inr logs)
        with loop show ?thesis by (simp add: retry_loop_success)
      next
        case (Inl msg)
        have again: "\<exists>s'. retry_loop chain addr abi a b mr (rc + 1) s0 = Some s'"
          if "rc + 1 \<le> mr" for s0
          using that loop by (intro inner.hyps) simp
        show ?thesis
        proof (cases "is_rate_limit msg \<and> rc + 1 \<le> mr")
          case True
          with loop Inl again show ?thesis by (simp add: retry_loop_rate_limited)
        next
          case no_rate: False
          show ?thesis
          proof (cases "is_too_many_logs msg")
            case tm: True
            show ?thesis
            proof (cases "a = b")
              case True
              with loop Inl no_rate tm show ?thesis
                using retry_loop_single_block [of rc mr addr abi a chain s msg] by simp
            next
              case False
              with outer.prems have lt: "a < b" by simp
              let ?mid = "midBlock a b"
              have mid: "?mid = a + (b - a) div 2"
                using outer.prems by (rule midBlock_floor)
              have le1: "a \<le> ?mid" and lt1: "nat (?mid - a) < nat (b - a)"
                using lt mid by simp_all
              have le2: "?mid + 1 \<le> b" and lt2: "nat (b - (?mid + 1)) < nat (b - a)"
                using lt mid by simp_all
              from outer.hyps [OF lt1 le1] obtain s2 where
                first: "retry_loop chain addr abi a ?mid mr 0
                          (log_event (Split a ?mid b) (begin_fetch a b s)) = Some s2"
                by blast
              from outer.hyps [OF lt2 le2] obtain s3 where
                second: "retry_loop chain addr abi (?mid + 1) b mr 0 s2 = Some s3"
                by blast
              from retry_loop_split [where chain = chain and s = s, OF loop Inl no_rate tm False] first second
              show ?thesis by simp
            qed
          next
            case no_tm: False
            show ?thesis
            proof (cases "rc + 1 > mr")
              case True
              with loop Inl no_rate no_tm show ?thesis by (simp add: retry_loop_exhausted)
            next
              case False
              with loop Inl no_rate no_tm again show ?thesis
                by (simp add: retry_loop_other_error)
            qed
          qed
        qed
      qed
    qed
  qed
qed

text \<open>
  C6.  For every range \<open>fromBlock \<le> toBlock\<close>, every contract address and
  event, every \<^verbatim>\<open>maxRetries\<close>, every initial state and every behaviour of the
  chain client (any outcome at any attempt: logs, or a failure with any
  message), \<^verbatim>\<open>processContractEventRange\<close> returns a state: it neither throws
  nor runs forever.
\<close>

theorem processContractEventRange_always_returns:
  assumes "fromBlock \<le> toBlock"
  shows "\<exists>s'. processContractEventRange chain contractAddress abi fromBlock toBlock maxRetries s
               = Some s'"
  unfolding processContractEventRange_def using assms by (rule retry_loop_returns)

theorem processContractEventRange_always_returns_witness:
  "(1::int) \<le> 100
   \<and> (\<exists>s'. processContractEventRange (\<lambda>n f t. ChainError ''query returned too many logs'')
              ''0xA0b8'' transfer_abi 1 100 3 (fresh_driver_state ''2024-01-01 00:00:00'') = Some s')"
proof -
  have le: "(1::int) \<le> 100" by simp
  from processContractEventRange_always_returns [OF le] le show ?thesis by blast
qed

text \<open>
  A range with \<open>toBlock < fromBlock\<close> is refused by \<^verbatim>\<open>getContractLogs\<close> at
  every attempt; the driver returns for it as well, as long as the message of
  that refusal (which embeds the event name and the contract address) is not
  taken for a too-many-logs failure.
\<close>

lemma inverted_range_returns:
  assumes inv: "toBlock < fromBlock"
      and msg: "getContractLogs addr abi fromBlock toBlock (chain 0) = Inl msg"
      and ok: "\<not> is_too_many_logs msg"
  shows "\<exists>s'. retry_loop chain addr abi fromBlock toBlock mr rc s = Some s'"
proof (induction "nat (mr + 1 - rc)" arbitrary: rc s rule: less_induct)
  case less
  have fail: "getContractLogs addr abi fromBlock toBlock (chain (ds_fetches s)) = Inl msg"
    using inv msg by (simp add: getContractLogs_def)
  show ?case
  proof (cases "rc \<le> mr")
    case False
    then show ?thesis by (simp add: retry_loop_exit)
  next
    case loop: True
    have again: "\<exists>s'. retry_loop chain addr abi fromBlock toBlock mr (rc + 1) s0 = Some s'"
      if "rc + 1 \<le> mr" for s0
      using that loop by (intro less.hyps) simp
    show ?thesis
    proof (cases "is_rate_limit msg \<and> rc + 1 \<le> mr")
      case True
      with again retry_loop_rate_limited [where chain = chain and s = s, OF loop fail]
      show ?thesis by simp
    next
      case no_rate: False
      show ?thesis
      proof (cases "rc + 1 > mr")
        case True
        from retry_loop_exhausted [where chain = chain and s = s, OF loop fail no_rate ok True]
        show ?thesis by simp
      next
        case False
        with again retry_loop_other_error [where chain = chain and s = s, OF loop fail no_rate ok False]
        show ?thesis by simp
      qed
    qed
  qed
qed

lemma every_unit_returns:
  "fromBlock \<le> toBlock \<Longrightarrow> \<exists>s'. process_units chain units fromBlock toBlock s = Some s'"
proof (induction units arbitrary: s)
  case Nil
  then show ?case by simp
next
  case (Cons u units)
  obtain addr abi where u: "u = (addr, abi)" by (cases u)
  from retry_loop_returns [OF Cons.prems] obtain s1 where
    "processContractEventRange chain addr abi fromBlock toBlock 3 s = Some s1"
    unfolding processContractEventRange_def by blast
  with Cons.IH [OF Cons.prems, of s1] u show ?case by simp
qed

subsection \<open>Splitting on a too-many-logs failure\<close>

text \<open>
  C3 (the code departs from the claim).  The chain client fails on \<open>[1, 100]\<close>
  with \<^verbatim>\<open>Log response size exceeded\<close>, the too-many-logs failure that
  \<^verbatim>\<open>getContractLogs\<close> itself looks for.  \<^verbatim>\<open>getContractLogs\<close> rethrows it as
  \<^verbatim>\<open>Too many logs for range 1-100. Try smaller block range.\<close>; the driver's
  test, which is case-sensitive and looks for \<^verbatim>\<open>Log response size exceeded\<close>
  or \<^verbatim>\<open>too many logs\<close>, does not take that message for a too-many-logs
  failure; and the range is never split: the driver fetches the whole range
  four times, with the delays of the other errors, and gives up.
\<close>

theorem response_size_failure_is_not_split:
  "getContractLogs ''0xA0b8'' transfer_abi 1 100 (\<lambda>f t. ChainError ''Log response size exceeded'')
     = Inl ''Too many logs for range 1-100. Try smaller block range.''
   \<and> \<not> is_too_many_logs ''Too many logs for range 1-100. Try smaller block range.''
   \<and> map_option ds_trace
         (processContractEventRange (\<lambda>n f t. ChainError ''Log response size exceeded'')
            ''0xA0b8'' transfer_abi 1 100 3 (fresh_driver_state ''2024-01-01 00:00:00''))
       = Some [Fetch 1 100, Sleep 1000, Fetch 1 100, Sleep 2000, Fetch 1 100, Sleep 3000,
               Fetch 1 100, GiveUp 1 100]"
  by code_simp

text \<open>
  The split itself is as the claim describes it, for the failures that the
  driver does take for too-many-logs (a chain message with \<^verbatim>\<open>too many logs\<close>
  in lower case, which \<^verbatim>\<open>getContractLogs\<close> passes on).  Let a fetch of \<open>[a, b]\<close>
  fail with such a message, at a turn that the rate-limit branch does not
  take first.  If \<open>a < b\<close>, the driver computes \<open>mid = a + (b - a) div 2\<close> (floor
  division) and continues as the run on \<open>[a, mid]\<close> followed by the run on
  \<open>[mid + 1, b]\<close>, each with a fresh attempt counter; the blocks of the two
  halves, listed one after the other, are exactly the blocks of \<open>[a, b]\<close>, each
  once; both halves are non-empty and strictly shorter than \<open>[a, b]\<close>; and the
  run returns.  If \<open>a = b\<close>, the driver does not split: it records the skipped
  block and returns at once.
\<close>

lemma recognized_failure_splits_in_half:
  assumes loop: "retryCount \<le> maxRetries"
      and fail: "getContractLogs addr abi a b (chain (ds_fetches s)) = Inl msg"
      and tm: "is_too_many_logs msg"
      and no_rate: "\<not> (is_rate_limit msg \<and> retryCount + 1 \<le> maxRetries)"
  shows "(a < b \<longrightarrow>
           (let mid = a + (b - a) div 2 in
              midBlock a b = mid
              \<and> retry_loop chain addr abi a b maxRetries retryCount s
                  = Option.bind
                      (retry_loop chain addr abi a mid maxRetries 0
                         (log_event (Split a mid b) (begin_fetch a b s)))
                      (retry_loop chain addr abi (mid + 1) b maxRetries 0)
              \<and> [a..mid] @ [mid + 1..b] = [a..b]
              \<and> a \<le> mid \<and> mid < b
              \<and> mid - a + 1 < b - a + 1 \<and> b - (mid + 1) + 1 < b - a + 1
              \<and> (\<exists>s'. retry_loop chain addr abi a b maxRetries retryCount s = Some s')))
       \<and> (a = b \<longrightarrow>
            retry_loop chain addr abi a b maxRetries retryCount s
              = Some (log_event (SkipBlock a) (begin_fetch a b s)))"
proof (intro conjI impI)
  assume lt: "a < b"
  then have mid: "midBlock a b = a + (b - a) div 2"
    by (simp add: midBlock_floor)
  have ne: "a \<noteq> b" using lt by simp
  have bounds: "a \<le> a + (b - a) div 2" "a + (b - a) div 2 < b"
    using lt by simp_all
  have cover: "[a..a + (b - a) div 2] @ [a + (b - a) div 2 + 1..b] = [a..b]"
    using bounds by (simp add: upto_split2 [symmetric])
  have split: "retry_loop chain addr abi a b maxRetries retryCount s
                  = Option.bind
                      (retry_loop chain addr abi a (a + (b - a) div 2) maxRetries 0
                         (log_event (Split a (a + (b - a) div 2) b) (begin_fetch a b s)))
                      (retry_loop chain addr abi (a + (b - a) div 2 + 1) b maxRetries 0)"
    using retry_loop_split [where chain = chain and s = s, OF loop fail no_rate tm ne]
    by (simp add: mid)
  have "\<exists>s'. retry_loop chain addr abi a b maxRetries retryCount s = Some s'"
    using lt by (intro retry_loop_returns) simp
  with mid split cover bounds lt
  show "let mid = a + (b - a) div 2 in
              midBlock a b = mid
              \<and> retry_loop chain addr abi a b maxRetries retryCount s
                  = Option.bind
                      (retry_loop chain addr abi a mid maxRetries 0
                         (log_event (Split a mid b) (begin_fetch a b s)))
                      (retry_loop chain addr abi (mid + 1) b maxRetries 0)
              \<and> [a..mid] @ [mid + 1..b] = [a..b]
              \<and> a \<le> mid \<and> mid < b
              \<and> mid - a + 1 < b - a + 1 \<and> b - (mid + 1) + 1 < b - a + 1
              \<and> (\<exists>s'. retry_loop chain addr abi a b maxRetries retryCount s = Some s')"
    by (simp add: Let_def)
next
  assume eq: "a = b"
  from retry_loop_single_block [where chain = chain and s = s and a = a, OF loop _ no_rate tm]
       fail eq
  show "retry_loop chain addr abi a b maxRetries retryCount s
          = Some (log_event (SkipBlock a) (begin_fetch a b s))"
    by simp
qed

lemma msg_too_many_1_100:
  "getContractLogs ''0xA0b8'' transfer_abi 1 100 (\<lambda>f t. ChainError ''query returned too many logs'')
     = Inl ''Failed to fetch logs for Transfer on contract 0xA0b8: query returned too many logs''"
  "getContractLogs ''0xA0b8'' transfer_abi 7 7 (\<lambda>f t. ChainError ''query returned too many logs'')
     = Inl ''Failed to fetch logs for Transfer on contract 0xA0b8: query returned too many logs''"
  by code_simp+

lemma msg_too_many_class:
  "is_too_many_logs ''Failed to fetch logs for Transfer on contract 0xA0b8: query returned too many logs''"
  "\<not> is_rate_limit ''Failed to fetch logs for Transfer on contract 0xA0b8: query returned too many logs''"
  by code_simp+

lemma recognized_failure_splits_in_half_example:
  "midBlock 1 100 = 50
   \<and> retry_loop (\<lambda>n f t. ChainError ''query returned too many logs'') ''0xA0b8'' transfer_abi 1 100 3 0
        (fresh_driver_state ''2024-01-01 00:00:00'')
      = Option.bind
          (retry_loop (\<lambda>n f t. ChainError ''query returned too many logs'') ''0xA0b8'' transfer_abi 1 50 3 0
             (log_event (Split 1 50 100) (begin_fetch 1 100 (fresh_driver_state ''2024-01-01 00:00:00''))))
          (retry_loop (\<lambda>n f t. ChainError ''query returned too many logs'') ''0xA0b8'' transfer_abi 51 100 3 0)
   \<and> [1..50] @ [51..100] = [1..100::int]
   \<and> retry_loop (\<lambda>n f t. ChainError ''query returned too many logs'') ''0xA0b8'' transfer_abi 7 7 3 0
        (fresh_driver_state ''2024-01-01 00:00:00'')
      = Some (log_event (SkipBlock 7) (begin_fetch 7 7 (fresh_driver_state ''2024-01-01 00:00:00'')))"
proof -
  let ?chain = "\<lambda>(n::nat) (f::int) (t::int). ChainError ''query returned too many logs''"
  let ?s = "fresh_driver_state ''2024-01-01 00:00:00''"
  let ?msg = "''Failed to fetch logs for Transfer on contract 0xA0b8: query returned too many logs''"
  have loop: "(0::int) \<le> 3" by simp
  have no_rate: "\<not> (is_rate_limit ?msg \<and> (0::int) + 1 \<le> 3)"
    using msg_too_many_class by simp
  have f1: "getContractLogs ''0xA0b8'' transfer_abi 1 100 (?chain (ds_fetches ?s)) = Inl ?msg"
    using msg_too_many_1_100 by simp
  have f2: "getContractLogs ''0xA0b8'' transfer_abi 7 7 (?chain (ds_fetches ?s)) = Inl ?msg"
    using msg_too_many_1_100 by simp
  from recognized_failure_splits_in_half [where chain = ?chain and s = ?s, OF loop f1 msg_too_many_class(1) no_rate]
       recognized_failure_splits_in_half [where chain = ?chain and s = ?s, OF loop f2 msg_too_many_class(1) no_rate]
  show ?thesis by (simp add: Let_def)
qed

text \<open>
  A too-many-logs failure on \<open>[1, 100]\<close> followed by success on both halves:
  each half is fetched once.
\<close>

lemma scenario_C_split_then_success:
  "map_option ds_trace
     (processContractEventRange
        (\<lambda>n f t. if f = 1 \<and> t = 100 then ChainError ''query returned too many logs'' else ChainLogs [])
        ''0xA0b8'' transfer_abi 1 100 3 (fresh_driver_state ''2024-01-01 00:00:00''))
   = Some [Fetch 1 100, Split 1 50 100, Fetch 1 50, Complete 1 50, Fetch 51 100, Complete 51 100]"
  by code_simp

subsection \<open>Retrying a rate-limited fetch\<close>

text \<open>
  C5 (the code departs from the claim).  The chain client fails on \<open>[1, 100]\<close>
  at every attempt with \<^verbatim>\<open>rate limit exceeded\<close>, the rate-limit failure that
  \<^verbatim>\<open>getContractLogs\<close> itself looks for, and \<^verbatim>\<open>maxRetries\<close> is 3.
  \<^verbatim>\<open>getContractLogs\<close> rethrows it as
  \<^verbatim>\<open>Rate limit exceeded for range 1-100. Retrying with delay...\<close>; the driver's
  test, which is case-sensitive and looks for \<^verbatim>\<open>rate limit\<close> or \<^verbatim>\<open>429\<close>, does
  not take that message for a rate-limit failure; and the driver sleeps
  1000 ms, 2000 ms and 3000 ms before its three retries, not 2000 ms, 4000 ms
  and 8000 ms.  It does make four fetches and then gives up, returning
  normally.
\<close>

theorem rate_limit_failure_gets_linear_delays:
  "getContractLogs ''0xA0b8'' transfer_abi 1 100 (\<lambda>f t. ChainError ''rate limit exceeded'')
     = Inl ''Rate limit exceeded for range 1-100. Retrying with delay...''
   \<and> \<not> is_rate_limit ''Rate limit exceeded for range 1-100. Retrying with delay...''
   \<and> map_option ds_trace
         (processContractEventRange (\<lambda>n f t. ChainError ''rate limit exceeded'')
            ''0xA0b8'' transfer_abi 1 100 3 (fresh_driver_state ''2024-01-01 00:00:00''))
       = Some [Fetch 1 100, Sleep 1000, Fetch 1 100, Sleep 2000, Fetch 1 100, Sleep 3000,
               Fetch 1 100, GiveUp 1 100]"
  by code_simp

text \<open>
  The exponential delays are what the driver applies to the failures that it
  does take for rate-limit failures (a chain message with \<^verbatim>\<open>429\<close>, which
  \<^verbatim>\<open>getContractLogs\<close> passes on).  Let every fetch of \<open>[a, b]\<close> fail with such a
  message (and not one taken for too-many-logs), and let \<^verbatim>\<open>maxRetries = 3\<close>.
  Then the driver fetches, sleeps 2000 ms, fetches, sleeps 4000 ms, fetches,
  sleeps 8000 ms, fetches a fourth time and gives up.  It returns normally
  and leaves the store and the counters as they were; a batch that holds only
  this unit ends with that state, and a longer one goes on with its next
  contract and event combination from it.
\<close>

lemma recognized_rate_limit_gives_up:
  assumes fails: "\<forall>n. \<exists>msg. getContractLogs addr abi a b (chain n) = Inl msg
                        \<and> is_rate_limit msg \<and> \<not> is_too_many_logs msg"
  shows "\<exists>s'. processContractEventRange chain addr abi a b 3 s = Some s'
            \<and> ds_trace s' = ds_trace s @ [Fetch a b, Sleep 2000, Fetch a b, Sleep 4000,
                                           Fetch a b, Sleep 8000, Fetch a b, GiveUp a b]
            \<and> ds_fetches s' = ds_fetches s + 4
            \<and> ds_world s' = ds_world s
            \<and> process_units chain [(addr, abi)] a b s = Some s'
            \<and> process_units chain ((addr, abi) # units) a b s = process_units chain units a b s'"
proof -
  define s1 where "s1 = log_event (Sleep 2000) (begin_fetch a b s)"
  define s2 where "s2 = log_event (Sleep 4000) (begin_fetch a b s1)"
  define s3 where "s3 = log_event (Sleep 8000) (begin_fetch a b s2)"
  define s4 where "s4 = log_event (GiveUp a b) (begin_fetch a b s3)"
  have step: "retry_loop chain addr abi a b 3 rc s0
                = retry_loop chain addr abi a b 3 (rc + 1)
                    (log_event (Sleep (2 ^ nat (rc + 1) * 1000)) (begin_fetch a b s0))"
    if "rc + 1 \<le> 3" for rc s0
  proof -
    from fails obtain msg where
      m: "getContractLogs addr abi a b (chain (ds_fetches s0)) = Inl msg" "is_rate_limit msg"
      by blast
    from that have "rc \<le> 3" by simp
    from retry_loop_rate_limited [where chain = chain and s = s0, OF this m that]
    show ?thesis .
  qed
  have "retry_loop chain addr abi a b 3 0 s = retry_loop chain addr abi a b 3 1 s1"
    using step [of 0 s] by (simp add: s1_def)
  also have "\<dots> = retry_loop chain addr abi a b 3 2 s2"
    using step [of 1 s1] by (simp add: s2_def)
  also have "\<dots> = retry_loop chain addr abi a b 3 3 s3"
    using step [of 2 s2] by (simp add: s3_def)
  also have "\<dots> = Some s4"
  proof -
    from fails obtain msg where
      m: "getContractLogs addr abi a b (chain (ds_fetches s3)) = Inl msg" "\<not> is_too_many_logs msg"
      by blast
    have "\<not> (is_rate_limit msg \<and> (3::int) + 1 \<le> 3)" by simp
    from retry_loop_exhausted [where chain = chain and s = s3 and rc = 3 and mr = 3, OF _ m(1) this m(2)]
    show ?thesis by (simp add: s4_def)
  qed
  finally have run: "processContractEventRange chain addr abi a b 3 s = Some s4"
    by (simp add: processContractEventRange_def)
  have "ds_trace s4 = ds_trace s @ [Fetch a b, Sleep 2000, Fetch a b, Sleep 4000,
                                     Fetch a b, Sleep 8000, Fetch a b, GiveUp a b]"
       "ds_fetches s4 = ds_fetches s + 4" "ds_world s4 = ds_world s"
    by (simp_all add: s4_def s3_def s2_def s1_def log_event_def begin_fetch_def)
  with run show ?thesis by simp
qed

lemma msg_429:
  "getContractLogs ''0xA0b8'' transfer_abi 1 100 (\<lambda>f t. ChainError ''HTTP request failed. Status: 429'')
     = Inl ''Failed to fetch logs for Transfer on contract 0xA0b8: HTTP request failed. Status: 429''"
  by code_simp

lemma msg_429_class:
  "is_rate_limit ''Failed to fetch logs for Transfer on contract 0xA0b8: HTTP request failed. Status: 429''"
  "\<not> is_too_many_logs ''Failed to fetch logs for Transfer on contract 0xA0b8: HTTP request failed. Status: 429''"
  by code_simp+

lemma recognized_rate_limit_gives_up_example:
  "\<exists>s'. processContractEventRange (\<lambda>n f t. ChainError ''HTTP request failed. Status: 429'')
            ''0xA0b8'' transfer_abi 1 100 3 (fresh_driver_state ''2024-01-01 00:00:00'') = Some s'
        \<and> ds_trace s' = [Fetch 1 100, Sleep 2000, Fetch 1 100, Sleep 4000,
                          Fetch 1 100, Sleep 8000, Fetch 1 100, GiveUp 1 100]
        \<and> ds_fetches s' = 4"
proof -
  have "\<forall>n. \<exists>msg. getContractLogs ''0xA0b8'' transfer_abi 1 100
                     ((\<lambda>n f t. ChainError ''HTTP request failed. Status: 429'') n) = Inl msg
                   \<and> is_rate_limit msg \<and> \<not> is_too_many_logs msg"
    using msg_429 msg_429_class by simp
  from recognized_rate_limit_gives_up [OF this, of "fresh_driver_state ''2024-01-01 00:00:00''" "[]"]
  show ?thesis
    by (auto simp: fresh_driver_state_def)
qed

subsection \<open>What the driver takes a failure for\<close>

text \<open>
  The driver tests the message of the error that \<^verbatim>\<open>getContractLogs\<close> throws,
  and the tests are case-sensitive.  \<^verbatim>\<open>getContractLogs\<close> replaces a chain
  failure that mentions \<^verbatim>\<open>rate limit\<close> by \<^verbatim>\<open>Rate limit exceeded for range ...\<close>
  and one that mentions \<^verbatim>\<open>Log response size exceeded\<close> by
  \<^verbatim>\<open>Too many logs for range ...\<close>; the driver recognizes neither message
  (unless the block numbers happen to contain \<^verbatim>\<open>429\<close>) and handles both as
  other errors, with the linear delays and without a split.  The failures it
  does recognize are the ones \<^verbatim>\<open>getContractLogs\<close> passes on under
  \<^verbatim>\<open>Failed to fetch logs for ...\<close>: a chain message with \<^verbatim>\<open>429\<close>, or with
  \<^verbatim>\<open>too many logs\<close> in lower case.
\<close>

lemma status_429_failure_is_recognized:
  "getContractLogs ''0xA0b8'' transfer_abi 1 100
       (\<lambda>f t. ChainError ''HTTP request failed. Status: 429'')
     = Inl ''Failed to fetch logs for Transfer on contract 0xA0b8: HTTP request failed. Status: 429''
   \<and> is_rate_limit
        ''Failed to fetch logs for Transfer on contract 0xA0b8: HTTP request failed. Status: 429''"
  by code_simp

lemma block_number_with_429_reads_as_rate_limit:
  "getContractLogs ''0xA0b8'' transfer_abi 14290000 14290999
       (\<lambda>f t. ChainError ''Log response size exceeded'')
     = Inl ''Too many logs for range 14290000-14290999. Try smaller block range.''
   \<and> is_rate_limit ''Too many logs for range 14290000-14290999. Try smaller block range.''"
  by code_simp

text \<open>A single-block range with one matching log stores one row for that block.\<close>

lemma scenario_A_single_block:
  "map_option (\<lambda>s. (ds_trace s, map (\<lambda>r. row_value r ''block_number'') (stored_rows (ds_world s) ''Transfer'')))
     (processContractEventRange
        (\<lambda>n f t. ChainLogs [transfer_log ''0xA0b8'' ''0xabc'' 100 (Some 7) ''0x01'' ''0x02'' 5])
        ''0xA0b8'' transfer_abi 100 100 3 (fresh_driver_state ''2024-01-01 00:00:00''))
   = Some ([Fetch 100 100, Complete 100 100], [SInt 100])"
  by code_simp

end
